theory Spec2Isabelle
  imports Main "HOL-Library.Word"
begin

section \<open>cdiocddasrc: the libcdio CD audio source (ext/cdio/gstcdiocddasrc.c)\<close>

text \<open>
  A shallow embedding of \<^verbatim>\<open>gstcdiocddasrc.c\<close>. The element is a shim between libcdio
  and the CDDA base class of the host framework, so the model has three parts:
  \<^item> what libcdio answers (the library and an open handle) is data given to the functions;
  \<^item> the element's own state is the record \<open>GstCdioCddaSrc\<close> (fields \<open>cdio\<close> and
    \<open>read_speed\<close>), passed in and returned updated;
  \<^item> what the element does to its surroundings (log lines, element errors, calls that only
    have an effect on the device, memory released) is a list of events in program order.
  A \<^verbatim>\<open>gint\<close> is a 32-bit word: \<open>+\<close> and \<open>-\<close> wrap, \<open>sint\<close> reads the value, and
  the comparisons of the source are the signed ones (\<open>word_sless\<close>, \<open>word_sle\<close>).
  A \<^verbatim>\<open>guint\<close> is a 32-bit word read with \<open>uint\<close>; a \<^verbatim>\<open>gint\<close> stored into
  a \<^verbatim>\<open>guint\<close> keeps its bits. A \<^verbatim>\<open>track_t\<close> is an 8-bit word, and a \<^verbatim>\<open>gint\<close>
  passed for one is cut to its low 8 bits (\<open>ucast\<close>).
\<close>

subsection \<open>Data\<close>

type_synonym gint = "32 word"
type_synonym guint = "32 word"
type_synonym guint8 = "8 word"
type_synonym track_t = "8 word"

text \<open>\<^verbatim>\<open>enum { PROP0 = 0, PROP_READ_SPEED }\<close>; a property id is a \<^verbatim>\<open>guint\<close>.\<close>

definition PROP0 :: nat where
  "PROP0 = 0"

definition PROP_READ_SPEED :: nat where
  "PROP_READ_SPEED = 1"

text \<open>\<^verbatim>\<open>#define DEFAULT_READ_SPEED -1\<close>\<close>

definition DEFAULT_READ_SPEED :: gint where
  "DEFAULT_READ_SPEED = - 1"

text \<open>
  Modelled from the spec: the constant \<^verbatim>\<open>CDIO_CD_FRAMESIZE_RAW\<close> of libcdio's headers, which
  are not part of the sources; the spec gives "one CD-DA raw audio frame, 2352 bytes".
\<close>

definition CDIO_CD_FRAMESIZE_RAW :: nat where
  "CDIO_CD_FRAMESIZE_RAW = 2352"

text \<open>
  libcdio's enumerations come from its headers. The source names two disc modes and one
  track format; every other enumerator is kept by its number.
\<close>

datatype discmode_t = CDIO_DISC_MODE_CD_DA | CDIO_DISC_MODE_CD_MIXED | Other_discmode nat

datatype track_format_t = TRACK_FORMAT_AUDIO | Other_track_format nat

text \<open>The CD-TEXT block of a track: the two fields the element asks for.\<close>

record cdtext_t =
  CDTEXT_PERFORMER :: "string option"
  CDTEXT_TITLE :: "string option"

datatype gst_tag = GST_TAG_ARTIST | GST_TAG_TITLE

type_synonym GstTagList = "(gst_tag \<times> string) list"

text \<open>
  What \<^verbatim>\<open>cdio_read_audio_sector\<close> does: its return code, the \<^verbatim>\<open>errno\<close> it leaves
  behind, and the bytes it has put into the caller's memory.
\<close>

record read_result =
  read_ret :: gint
  read_errno :: gint
  read_bytes :: "guint8 list"

text \<open>
  An open handle (\<^verbatim>\<open>CdIo *\<close>, not \<^verbatim>\<open>NULL\<close>): what each query of the source answers on it.
  A track number is the value of the argument the source writes: the \<^verbatim>\<open>gint\<close>
  \<^verbatim>\<open>i + first_track\<close> in \<open>open\<close> (the conversion to the library's \<^verbatim>\<open>track_t\<close> then
  belongs to the answer), and the \<^verbatim>\<open>track_t i_track\<close> in the two functions of the source
  that take their track number as a \<^verbatim>\<open>track_t\<close>.
\<close>

record CdIo =
  cdio_get_discmode :: discmode_t
  cdio_get_first_track_num :: gint
  cdio_get_num_tracks :: gint
  cdio_get_track_sec_count :: "gint \<Rightarrow> gint"
  cdio_get_track_format :: "track_t \<Rightarrow> track_format_t"
  cdio_get_track_lsn :: "gint \<Rightarrow> gint"
  cdio_get_cdtext :: "track_t \<Rightarrow> cdtext_t option"
  cdio_set_speed :: "gint \<Rightarrow> gint"
  cdio_read_audio_sector :: "gint \<Rightarrow> read_result"

text \<open>
  The library as a whole: the calls that take no handle or may be given \<^verbatim>\<open>NULL\<close>.
  \<open>cdio_open\<close> answers \<open>Inl errno\<close> for \<^verbatim>\<open>NULL\<close>; \<open>cdio_get_devices\<close> is \<open>None\<close> for
  \<^verbatim>\<open>NULL\<close> and otherwise the entries of the array before its terminating \<^verbatim>\<open>NULL\<close>;
  \<open>read_audio_sector_NULL\<close> is what \<^verbatim>\<open>cdio_read_audio_sector\<close> does when its handle is
  \<^verbatim>\<open>NULL\<close>; \<open>LIBCDIO_VERSION_NUM\<close> is the version the element was compiled against.
\<close>

record libcdio =
  LIBCDIO_VERSION_NUM :: nat
  cdio_open :: "string \<Rightarrow> gint + CdIo"
  cdio_get_devices :: "string list option"
  cdio_get_default_device :: "CdIo option \<Rightarrow> string option"
  read_audio_sector_NULL :: "gint \<Rightarrow> read_result"

text \<open>The element instance.\<close>

record GstCdioCddaSrc =
  cdio :: "CdIo option"
  read_speed :: gint

text \<open>
  \<^verbatim>\<open>GstCddaBaseSrcTrack\<close> of the host's base class, as filled in by \<open>open\<close>. The
  track number and the two sectors are \<^verbatim>\<open>guint\<close> fields, so their order is the one of
  \<open>uint\<close>. The field \<^verbatim>\<open>end\<close> is \<open>end_sector\<close> here, \<^verbatim>\<open>end\<close> being a keyword.
\<close>

record GstCddaBaseSrcTrack =
  is_audio :: bool
  num :: guint
  start :: guint
  end_sector :: guint
  tags :: "GstTagList option"

text \<open>A buffer of the host: its size and the bytes written into it.\<close>

record GstBuffer =
  GST_BUFFER_SIZE :: nat
  GST_BUFFER_DATA :: "guint8 list"

text \<open>
  \<^verbatim>\<open>GstFlowReturn\<close> of the host: \<^verbatim>\<open>GST_FLOW_OK\<close>, or any other code by its number.
\<close>

datatype GstFlowReturn = GST_FLOW_OK | GST_FLOW_other int

subsection \<open>Events\<close>

datatype log_level = LOG | DEBUG | WARNING

datatype log_message =
    Returning_default_device "string option"
  | No_devices_found
  | Device string
  | Alloc_buffer_failed GstFlowReturn
  | Read_at_sector_failed gint
  | No_cdtext_for_track track_t
  | Cdtext_not_supported nat
  | Trying_to_open_device string
  | Discmode discmode_t
  | Set_speed_not_supported nat
  | Tracks_first_track gint gint
  | Invalid_property_id nat

datatype resource_error = OPEN_READ | READ

datatype error_detail =
    Cdio_open_failed gint
  | Discmode_is discmode_t
  | Read_audio_sector_failed gint gint

datatype event =
    Log log_level log_message
  | ELEMENT_ERROR resource_error string error_detail
  | Call_cdio_set_speed gint
  | Call_cdio_destroy
  | Call_gst_buffer_unref
  | Call_free

subsection \<open>Device probing\<close>

text \<open>
  \<^verbatim>\<open>g_strdupv\<close> copies a \<^verbatim>\<open>NULL\<close>-terminated array of strings entry by entry.
\<close>

definition g_strdupv :: "string list \<Rightarrow> string list" where
  "g_strdupv devices = map (\<lambda>d. d) devices"

text \<open>
  \<^verbatim>\<open>gst_cdio_cdda_src_probe_devices\<close>: the result is \<open>None\<close> for \<^verbatim>\<open>NULL\<close>; the loop
  logs and frees every entry.
\<close>

definition gst_cdio_cdda_src_probe_devices :: "libcdio \<Rightarrow> string list option \<times> event list" where
  "gst_cdio_cdda_src_probe_devices lib =
     (case cdio_get_devices lib of
        None \<Rightarrow> (None, [Log DEBUG No_devices_found])
      | Some [] \<Rightarrow> (None, [Log DEBUG No_devices_found, Call_free])
      | Some (d # ds) \<Rightarrow>
          (Some (g_strdupv (d # ds)),
           concat (map (\<lambda>x. [Log DEBUG (Device x), Call_free]) (d # ds)) @ [Call_free]))"

text \<open>\<^verbatim>\<open>gst_cdio_cdda_src_get_default_device\<close>: the handle may be \<^verbatim>\<open>NULL\<close> here.\<close>

definition gst_cdio_cdda_src_get_default_device ::
  "libcdio \<Rightarrow> GstCdioCddaSrc \<Rightarrow> string option \<times> event list" where
  "gst_cdio_cdda_src_get_default_device lib src =
     (let default_device = cdio_get_default_device lib (cdio src);
          ret = default_device
      in (ret, [Call_free, Log LOG (Returning_default_device ret)]))"

subsection \<open>The read-speed property\<close>

text \<open>\<^verbatim>\<open>gst_cdio_cdda_src_init\<close>\<close>

definition gst_cdio_cdda_src_init :: GstCdioCddaSrc where
  "gst_cdio_cdda_src_init = \<lparr> cdio = None, read_speed = DEFAULT_READ_SPEED \<rparr>"

text \<open>
  \<^verbatim>\<open>gst_cdio_cdda_src_set_property\<close>: the \<^verbatim>\<open>GValue\<close> holds a \<^verbatim>\<open>gint\<close>; any other property
  id only warns.
\<close>

definition gst_cdio_cdda_src_set_property ::
  "GstCdioCddaSrc \<Rightarrow> nat \<Rightarrow> gint \<Rightarrow> GstCdioCddaSrc \<times> event list" where
  "gst_cdio_cdda_src_set_property src prop_id v =
     (if prop_id = PROP_READ_SPEED then
        (let speed = v in (src\<lparr> read_speed := speed \<rparr>, []))
      else (src, [Log WARNING (Invalid_property_id prop_id)]))"

text \<open>
  \<^verbatim>\<open>gst_cdio_cdda_src_get_property\<close>: the \<^verbatim>\<open>GValue\<close> is set for \<^verbatim>\<open>PROP_READ_SPEED\<close> and left
  as it was (\<open>None\<close>) for any other id.
\<close>

definition gst_cdio_cdda_src_get_property ::
  "GstCdioCddaSrc \<Rightarrow> nat \<Rightarrow> gint option \<times> event list" where
  "gst_cdio_cdda_src_get_property src prop_id =
     (if prop_id = PROP_READ_SPEED then
        (let speed = read_speed src in (Some speed, []))
      else (None, [Log WARNING (Invalid_property_id prop_id)]))"

text \<open>
  The parameter specification installed by \<^verbatim>\<open>gst_cdio_cdda_src_class_init\<close>:
  \<^verbatim>\<open>g_param_spec_int ("read-speed", ..., -1, 100, DEFAULT_READ_SPEED, G_PARAM_READWRITE)\<close>.
\<close>

record GParamSpecInt =
  minimum :: gint
  maximum :: gint
  default_value :: gint

definition read_speed_pspec :: GParamSpecInt where
  "read_speed_pspec = \<lparr> minimum = - 1, maximum = 100, default_value = DEFAULT_READ_SPEED \<rparr>"

text \<open>What the host does with a value outside the range of a parameter specification.\<close>

datatype range_policy = Reject | Clamp

text \<open>
  Modelled from the spec: the host's property machinery (\<^verbatim>\<open>g_object_set\<close> of GObject, not
  part of the sources) checks a value against the installed parameter specification before
  it calls the element's \<open>set_property\<close>. The spec leaves the policy for a value out of
  range open ("rejected or clamped consistently"), so the policy is a parameter.
\<close>

definition g_object_set_read_speed ::
  "range_policy \<Rightarrow> GParamSpecInt \<Rightarrow> GstCdioCddaSrc \<Rightarrow> gint \<Rightarrow> GstCdioCddaSrc" where
  "g_object_set_read_speed policy pspec src v =
     (if minimum pspec \<le>s v \<and> v \<le>s maximum pspec then
        fst (gst_cdio_cdda_src_set_property src PROP_READ_SPEED v)
      else
        (case policy of
           Reject \<Rightarrow> src
         | Clamp \<Rightarrow>
             fst (gst_cdio_cdda_src_set_property src PROP_READ_SPEED
                    (if v <s minimum pspec then minimum pspec else maximum pspec))))"

text \<open>
  Modelled from the spec: \<^verbatim>\<open>g_object_get\<close> of the host, which calls the element's
  \<open>get_property\<close> with the id of the property.
\<close>

definition g_object_get_read_speed :: "GstCdioCddaSrc \<Rightarrow> gint option" where
  "g_object_get_read_speed src = fst (gst_cdio_cdda_src_get_property src PROP_READ_SPEED)"

text \<open>A run of property writes on a fresh element.\<close>

definition set_read_speeds :: "range_policy \<Rightarrow> gint list \<Rightarrow> GstCdioCddaSrc" where
  "set_read_speeds policy vs =
     foldl (g_object_set_read_speed policy read_speed_pspec) gst_cdio_cdda_src_init vs"

subsection \<open>Reading a sector\<close>

text \<open>
  Modelled from the spec: \<^verbatim>\<open>gst_pad_alloc_buffer\<close> of the host ("buffer allocation matching
  a negotiated frame size"). The flow return is the host's; with \<^verbatim>\<open>GST_FLOW_OK\<close> the buffer
  has the size asked for and nothing has been written into it.
\<close>

definition gst_pad_alloc_buffer :: "GstFlowReturn \<Rightarrow> nat \<Rightarrow> GstFlowReturn \<times> GstBuffer" where
  "gst_pad_alloc_buffer host_ret sz =
     (host_ret, \<lparr> GST_BUFFER_SIZE = sz, GST_BUFFER_DATA = [] \<rparr>)"

text \<open>The library call on \<^verbatim>\<open>src->cdio\<close>, which the source does not test for \<^verbatim>\<open>NULL\<close>.\<close>

definition call_cdio_read_audio_sector :: "libcdio \<Rightarrow> CdIo option \<Rightarrow> gint \<Rightarrow> read_result" where
  "call_cdio_read_audio_sector lib p_cdio sector =
     (case p_cdio of
        None \<Rightarrow> read_audio_sector_NULL lib sector
      | Some cd \<Rightarrow> cdio_read_audio_sector cd sector)"

text \<open>\<^verbatim>\<open>gst_cdio_cdda_src_read_sector\<close>: \<open>None\<close> is the \<^verbatim>\<open>NULL\<close> result.\<close>

definition gst_cdio_cdda_src_read_sector ::
  "libcdio \<Rightarrow> GstFlowReturn \<Rightarrow> GstCdioCddaSrc \<Rightarrow> gint \<Rightarrow> GstBuffer option \<times> event list" where
  "gst_cdio_cdda_src_read_sector lib host_ret src sector =
     (let (flowret, buf) = gst_pad_alloc_buffer host_ret CDIO_CD_FRAMESIZE_RAW
      in if flowret \<noteq> GST_FLOW_OK then (None, [Log DEBUG (Alloc_buffer_failed flowret)])
         else
           (let r = call_cdio_read_audio_sector lib (cdio src) sector
            in if read_ret r \<noteq> 0 then
                 (None,
                  [Log WARNING (Read_at_sector_failed sector),
                   ELEMENT_ERROR READ ''Could not read from CD.''
                     (Read_audio_sector_failed sector (read_errno r)),
                   Call_gst_buffer_unref])
               else (Some (buf\<lparr> GST_BUFFER_DATA := read_bytes r \<rparr>), [])))"

subsection \<open>Opening and closing\<close>

text \<open>\<^verbatim>\<open>notcdio_track_is_audio_track\<close>; its track number is a \<^verbatim>\<open>track_t\<close>.\<close>

definition notcdio_track_is_audio_track :: "CdIo \<Rightarrow> track_t \<Rightarrow> bool" where
  "notcdio_track_is_audio_track p_cdio i_track =
     (cdio_get_track_format p_cdio i_track = TRACK_FORMAT_AUDIO)"

text \<open>
  Modelled from the spec: \<^verbatim>\<open>gst_cdio_add_cdtext_field\<close> of \<^verbatim>\<open>gstcdio.c\<close>, which is not among
  the sources ("attempt to fetch optional text metadata (title, performer); absence of
  metadata is not an error, just an empty result for that track"). A field that is there
  is added under its tag, and the list is created on the first one.
\<close>

definition gst_cdio_add_cdtext_field ::
  "string option \<Rightarrow> gst_tag \<Rightarrow> GstTagList option \<Rightarrow> GstTagList option" where
  "gst_cdio_add_cdtext_field field gst_tag p_tags =
     (case field of
        None \<Rightarrow> p_tags
      | Some txt \<Rightarrow> Some ((case p_tags of None \<Rightarrow> [] | Some l \<Rightarrow> l) @ [(gst_tag, txt)]))"

text \<open>
  \<^verbatim>\<open>gst_cdio_cdda_src_get_cdtext\<close>, both branches of \<^verbatim>\<open>#if (LIBCDIO_VERSION_NUM >= 76)\<close>.
  Its track number is a \<^verbatim>\<open>track_t\<close>: the library is asked and the debug line is written
  with the 8-bit number.
\<close>

definition gst_cdio_cdda_src_get_cdtext ::
  "libcdio \<Rightarrow> CdIo \<Rightarrow> track_t \<Rightarrow> GstTagList option \<times> event list" where
  "gst_cdio_cdda_src_get_cdtext lib p_cdio i_track =
     (if 76 \<le> LIBCDIO_VERSION_NUM lib then
        (case cdio_get_cdtext p_cdio i_track of
           None \<Rightarrow> (None, [Log DEBUG (No_cdtext_for_track i_track)])
         | Some t \<Rightarrow>
             (gst_cdio_add_cdtext_field (CDTEXT_TITLE t) GST_TAG_TITLE
                (gst_cdio_add_cdtext_field (CDTEXT_PERFORMER t) GST_TAG_ARTIST None), []))
      else (None, [Log DEBUG (Cdtext_not_supported (LIBCDIO_VERSION_NUM lib))]))"

text \<open>
  The body of the loop of \<open>open\<close> for the track number \<open>t = i + first_track\<close>. The two
  functions above get it cut to a \<^verbatim>\<open>track_t\<close>; the \<^verbatim>\<open>gint\<close> values of the number and of
  the start sector go into \<^verbatim>\<open>guint\<close> fields, and the end sector is computed there.
\<close>

definition open_track ::
  "libcdio \<Rightarrow> CdIo \<Rightarrow> gint \<Rightarrow> GstCddaBaseSrcTrack \<times> event list" where
  "open_track lib p_cdio t =
     (let len_sectors = cdio_get_track_sec_count p_cdio t;
          track_start = cdio_get_track_lsn p_cdio t;
          (track_tags, ev) = gst_cdio_cdda_src_get_cdtext lib p_cdio (ucast t)
      in (\<lparr> is_audio = notcdio_track_is_audio_track p_cdio (ucast t),
            num = t,
            start = track_start,
            end_sector = track_start + len_sectors - 1,
            tags = track_tags \<rparr>, ev))"

text \<open>
  \<^verbatim>\<open>for (i = 0; i < num_tracks; ++i)\<close>: the tracks handed to
  \<^verbatim>\<open>gst_cdda_base_src_add_track\<close> so far and the events so far are carried along.
\<close>

function open_loop ::
  "libcdio \<Rightarrow> CdIo \<Rightarrow> gint \<Rightarrow> gint \<Rightarrow> gint \<Rightarrow>
   GstCddaBaseSrcTrack list \<times> event list \<Rightarrow> GstCddaBaseSrcTrack list \<times> event list" where
  "open_loop lib p_cdio first_track num_tracks i acc =
     (if i <s num_tracks then
        (let (track, ev) = open_track lib p_cdio (i + first_track)
         in open_loop lib p_cdio first_track num_tracks (i + 1)
              (fst acc @ [track], snd acc @ ev))
      else acc)"
  by pat_completeness auto

termination open_loop
proof (relation "measure (\<lambda>(lib, p_cdio, first_track, num_tracks, i, acc).
                            nat (sint num_tracks - sint i))")
  show "wf (measure (\<lambda>(lib :: libcdio, p_cdio :: CdIo, first_track :: gint, num_tracks :: gint,
                        i :: gint, acc :: GstCddaBaseSrcTrack list \<times> event list).
                       nat (sint num_tracks - sint i)))"
    by simp
next
  fix lib :: libcdio and p_cdio :: CdIo and first_track num_tracks i :: gint
    and acc :: "GstCddaBaseSrcTrack list \<times> event list"
    and x :: "GstCddaBaseSrcTrack \<times> event list" and xa :: GstCddaBaseSrcTrack and y :: "event list"
  assume less: "i <s num_tracks"
  have lt: "sint i < sint num_tracks"
    using less by (simp add: word_sless_alt)
  have "sint num_tracks < 2 ^ 31"
    using sint_lt [of num_tracks] by simp
  moreover have "- (2 ^ 31) \<le> sint i"
    using sint_ge [of i] by simp
  ultimately have "- (2 ^ 31) \<le> sint i + 1" and "sint i + 1 < 2 ^ 31"
    using lt by arith+
  then have "signed_take_bit 31 (sint i + 1) = sint i + 1"
    by (simp add: signed_take_bit_int_eq_self)
  then have "sint (i + 1) = sint i + 1"
    by (simp add: sint_word_ariths)
  then show "((lib, p_cdio, first_track, num_tracks, i + 1, fst acc @ [xa], snd acc @ y),
              (lib, p_cdio, first_track, num_tracks, i, acc))
             \<in> measure (\<lambda>(lib, p_cdio, first_track, num_tracks, i, acc).
                          nat (sint num_tracks - sint i))"
    using lt by simp
qed

declare open_loop.simps [simp del]

text \<open>The result of \<open>open\<close>: the return value, the element, the tracks added, the events.\<close>

record open_result =
  open_ret :: bool
  open_src :: GstCdioCddaSrc
  open_tracks :: "GstCddaBaseSrcTrack list"
  open_events :: "event list"

text \<open>
  The read-speed step of \<open>open\<close>, both branches of \<^verbatim>\<open>#if (LIBCDIO_VERSION_NUM >= 76)\<close>.
  The value of \<^verbatim>\<open>cdio_set_speed\<close> is not looked at.
\<close>

definition open_set_speed :: "libcdio \<Rightarrow> CdIo \<Rightarrow> GstCdioCddaSrc \<Rightarrow> event list" where
  "open_set_speed lib p_cdio src =
     (if read_speed src \<noteq> - 1 then
        (if 76 \<le> LIBCDIO_VERSION_NUM lib then
           (let ignored = cdio_set_speed p_cdio (read_speed src)
            in [Call_cdio_set_speed (read_speed src)])
         else [Log WARNING (Set_speed_not_supported (LIBCDIO_VERSION_NUM lib))])
      else [])"

text \<open>
  \<^verbatim>\<open>gst_cdio_cdda_src_open\<close>. The device is \<open>None\<close> for \<^verbatim>\<open>NULL\<close>; the result \<open>None\<close> is a
  failed \<^verbatim>\<open>g_assert\<close>, which aborts.
\<close>

definition gst_cdio_cdda_src_open ::
  "libcdio \<Rightarrow> GstCdioCddaSrc \<Rightarrow> string option \<Rightarrow> open_result option" where
  "gst_cdio_cdda_src_open lib src device =
     (case device of
        None \<Rightarrow> None
      | Some dev \<Rightarrow>
          if cdio src \<noteq> None then None
          else
            (let ev0 = [Log LOG (Trying_to_open_device dev)]
             in case cdio_open lib dev of
                  Inl errno \<Rightarrow>
                    Some \<lparr> open_ret = False, open_src = src\<lparr> cdio := None \<rparr>, open_tracks = [],
                           open_events = ev0 @
                             [ELEMENT_ERROR OPEN_READ ''Could not open CD device for reading.''
                                (Cdio_open_failed errno)] \<rparr>
                | Inr p_cdio \<Rightarrow>
                    (let src1 = src\<lparr> cdio := Some p_cdio \<rparr>;
                         discmode = cdio_get_discmode p_cdio;
                         ev1 = ev0 @ [Log LOG (Discmode discmode)]
                     in if discmode \<noteq> CDIO_DISC_MODE_CD_DA \<and> discmode \<noteq> CDIO_DISC_MODE_CD_MIXED then
                          Some \<lparr> open_ret = False, open_src = src1, open_tracks = [],
                                 open_events = ev1 @
                                   [ELEMENT_ERROR OPEN_READ ''Disc is not an Audio CD.''
                                      (Discmode_is discmode)] \<rparr>
                        else
                          (let first_track = cdio_get_first_track_num p_cdio;
                               num_tracks = cdio_get_num_tracks p_cdio
                           in if num_tracks \<le>s 0 \<or> first_track <s 0 then
                                Some \<lparr> open_ret = True, open_src = src1, open_tracks = [],
                                       open_events = ev1 \<rparr>
                              else
                                (let ev2 = ev1 @ open_set_speed lib p_cdio src1 @
                                             [Log LOG (Tracks_first_track num_tracks first_track)];
                                     (tracks, ev3) =
                                       open_loop lib p_cdio first_track num_tracks 0 ([], ev2)
                                 in Some \<lparr> open_ret = True, open_src = src1,
                                           open_tracks = tracks, open_events = ev3 \<rparr>)))))"

text \<open>
  \<^verbatim>\<open>gst_cdio_cdda_src_close\<close>: \<open>None\<close> is the failed \<^verbatim>\<open>g_assert (src->cdio != NULL)\<close>.
\<close>

definition gst_cdio_cdda_src_close :: "GstCdioCddaSrc \<Rightarrow> (GstCdioCddaSrc \<times> event list) option" where
  "gst_cdio_cdda_src_close src =
     (case cdio src of
        None \<Rightarrow> None
      | Some p_cdio \<Rightarrow> Some (src\<lparr> cdio := None \<rparr>, [Call_cdio_destroy]))"

subsection \<open>Notions to state the properties with\<close>

text \<open>
  What \<open>open\<close> does not check and the library may or may not report: every track starts
  at a sector number that is not negative and has at least one sector, and each track has
  ended when the next one starts. The \<open>k\<close>-th track is asked for under the number the
  loop of \<open>open\<close> computes for it.
\<close>

definition reported_layout_ascending :: "CdIo \<Rightarrow> bool" where
  "reported_layout_ascending p_cdio =
     (let first_track = cdio_get_first_track_num p_cdio;
          num_tracks = cdio_get_num_tracks p_cdio;
          lsn = (\<lambda>k. sint (cdio_get_track_lsn p_cdio (of_nat k + first_track)));
          len = (\<lambda>k. sint (cdio_get_track_sec_count p_cdio (of_nat k + first_track)))
      in list_all (\<lambda>k. 0 \<le> lsn k \<and> 1 \<le> len k) [0..<nat (sint num_tracks)]
         \<and> list_all (\<lambda>k. lsn k + len k \<le> lsn (Suc k)) [0..<nat (sint num_tracks) - 1])"

text \<open>The speeds of the \<^verbatim>\<open>cdio_set_speed\<close> calls among some events, in order.\<close>

fun speed_calls :: "event list \<Rightarrow> gint list" where
  "speed_calls [] = []"
| "speed_calls (Call_cdio_set_speed v # es) = v # speed_calls es"
| "speed_calls (e # es) = speed_calls es"

text \<open>The messages logged as warnings among some events, in order.\<close>

fun warnings :: "event list \<Rightarrow> log_message list" where
  "warnings [] = []"
| "warnings (Log WARNING m # es) = m # warnings es"
| "warnings (e # es) = warnings es"

text \<open>The element errors posted among some events, in order.\<close>

fun element_errors :: "event list \<Rightarrow> (resource_error \<times> string \<times> error_detail) list" where
  "element_errors [] = []"
| "element_errors (ELEMENT_ERROR c txt d # es) = (c, txt, d) # element_errors es"
| "element_errors (e # es) = element_errors es"

text \<open>The same library over drives that answer \<open>g\<close> to \<^verbatim>\<open>cdio_set_speed\<close>.\<close>

definition with_set_speed :: "(gint \<Rightarrow> gint) \<Rightarrow> libcdio \<Rightarrow> libcdio" where
  "with_set_speed g lib =
     lib\<lparr> cdio_open :=
            (\<lambda>d. case cdio_open lib d of
                    Inl errno \<Rightarrow> Inl errno
                  | Inr p_cdio \<Rightarrow> Inr (p_cdio\<lparr> cdio_set_speed := g \<rparr>)) \<rparr>"

subsection \<open>Discs and libraries to run the element on\<close>

text \<open>
  The disc of the spec's scenario: track 1 on sectors 0 to 999, audio; track 2 on sectors
  1000 to 1999, data; no CD-TEXT; the drive takes any speed and reads every sector.
\<close>

definition mixed_cd :: CdIo where
  "mixed_cd =
     \<lparr> cdio_get_discmode = CDIO_DISC_MODE_CD_MIXED,
       cdio_get_first_track_num = 1,
       cdio_get_num_tracks = 2,
       cdio_get_track_sec_count = (\<lambda>t. 1000),
       cdio_get_track_format = (\<lambda>t. if t = 1 then TRACK_FORMAT_AUDIO else Other_track_format 1),
       cdio_get_track_lsn = (\<lambda>t. if t = 1 then 0 else 1000),
       cdio_get_cdtext = (\<lambda>t. None),
       cdio_set_speed = (\<lambda>v. 0),
       cdio_read_audio_sector = (\<lambda>s. \<lparr> read_ret = 0, read_errno = 0, read_bytes = [] \<rparr>) \<rparr>"

text \<open>A data disc, an audio disc without tracks, and a drive that refuses every speed.\<close>

definition data_cd :: CdIo where
  "data_cd = mixed_cd\<lparr> cdio_get_discmode := Other_discmode 1 \<rparr>"

definition empty_cd :: CdIo where
  "empty_cd = mixed_cd\<lparr> cdio_get_discmode := CDIO_DISC_MODE_CD_DA, cdio_get_num_tracks := 0 \<rparr>"

definition fixed_speed_cd :: CdIo where
  "fixed_speed_cd = mixed_cd\<lparr> cdio_set_speed := (\<lambda>v. - 1) \<rparr>"

text \<open>The disc of the scenario with a scratch: sector 500 cannot be read, \<^verbatim>\<open>errno\<close> is 5.\<close>

definition scratched_cd :: CdIo where
  "scratched_cd =
     mixed_cd\<lparr> cdio_read_audio_sector :=
                 (\<lambda>s. if s = 500 then \<lparr> read_ret = - 1, read_errno = 5, read_bytes = [] \<rparr>
                      else \<lparr> read_ret = 0, read_errno = 0, read_bytes = [] \<rparr>) \<rparr>"

text \<open>
  Three audio discs with two tracks each, numbered from 1, of which the library reports
  a layout that is not ascending: both tracks at sector 100 with no sector at all; both
  tracks on the sectors 0 to 999; and both tracks at sector -1 with two sectors.
\<close>

definition zero_length_cd :: CdIo where
  "zero_length_cd =
     mixed_cd\<lparr> cdio_get_discmode := CDIO_DISC_MODE_CD_DA,
               cdio_get_track_sec_count := (\<lambda>t. 0),
               cdio_get_track_format := (\<lambda>t. TRACK_FORMAT_AUDIO),
               cdio_get_track_lsn := (\<lambda>t. 100) \<rparr>"

definition overlapping_cd :: CdIo where
  "overlapping_cd = zero_length_cd\<lparr> cdio_get_track_sec_count := (\<lambda>t. 1000),
                                    cdio_get_track_lsn := (\<lambda>t. 0) \<rparr>"

definition negative_lsn_cd :: CdIo where
  "negative_lsn_cd = zero_length_cd\<lparr> cdio_get_track_sec_count := (\<lambda>t. 2),
                                     cdio_get_track_lsn := (\<lambda>t. - 1) \<rparr>"

text \<open>
  A library with these four discs in four drives; every other device fails to open with
  \<^verbatim>\<open>errno\<close> 2. It refuses to read from a \<^verbatim>\<open>NULL\<close> handle.
\<close>

definition four_drives :: libcdio where
  "four_drives =
     \<lparr> LIBCDIO_VERSION_NUM = 76,
       cdio_open = (\<lambda>d. if d = ''/dev/cdrom'' then Inr mixed_cd
                         else if d = ''/dev/sr1'' then Inr data_cd
                         else if d = ''/dev/sr2'' then Inr empty_cd
                         else if d = ''/dev/sr3'' then Inr fixed_speed_cd
                         else Inl 2),
       cdio_get_devices = Some [''/dev/cdrom'', ''/dev/sr1'', ''/dev/sr2'', ''/dev/sr3''],
       cdio_get_default_device = (\<lambda>p. Some ''/dev/cdrom''),
       read_audio_sector_NULL = (\<lambda>s. \<lparr> read_ret = - 2, read_errno = 0, read_bytes = [] \<rparr>) \<rparr>"

text \<open>A library with the three discs of the odd layouts in three more drives.\<close>

definition odd_drives :: libcdio where
  "odd_drives =
     four_drives\<lparr> cdio_open :=
                    (\<lambda>d. if d = ''/dev/sr4'' then Inr zero_length_cd
                         else if d = ''/dev/sr5'' then Inr overlapping_cd
                         else if d = ''/dev/sr6'' then Inr negative_lsn_cd
                         else cdio_open four_drives d) \<rparr>"

text \<open>The same library, except that a read from a \<^verbatim>\<open>NULL\<close> handle answers 0.\<close>

definition lenient_library :: libcdio where
  "lenient_library =
     four_drives\<lparr> read_audio_sector_NULL :=
                    (\<lambda>s. \<lparr> read_ret = 0, read_errno = 0, read_bytes = [] \<rparr>) \<rparr>"

section \<open>Properties\<close>

subsection \<open>Device probing\<close>

text \<open>
  C10. \<open>probe_devices\<close> never returns an empty list. Its result is absent exactly when the
  library's enumeration is \<^verbatim>\<open>NULL\<close> or an array with no entry; otherwise it is a copy of
  the library's entries, of which there is at least one.
\<close>

theorem probe_devices_absent_or_nonempty:
  "(case fst (gst_cdio_cdda_src_probe_devices lib) of
      None \<Rightarrow> cdio_get_devices lib = None \<or> cdio_get_devices lib = Some []
    | Some ret \<Rightarrow> ret \<noteq> [] \<and> cdio_get_devices lib = Some ret)"
  by (simp add: gst_cdio_cdda_src_probe_devices_def g_strdupv_def
           split: option.splits list.splits)

theorem probe_devices_absent_or_nonempty_witness:
  "fst (gst_cdio_cdda_src_probe_devices four_drives) =
     Some [''/dev/cdrom'', ''/dev/sr1'', ''/dev/sr2'', ''/dev/sr3'']
   \<and> fst (gst_cdio_cdda_src_probe_devices (four_drives\<lparr> cdio_get_devices := Some [] \<rparr>)) = None"
  using probe_devices_absent_or_nonempty [of four_drives]
    probe_devices_absent_or_nonempty [of "four_drives\<lparr> cdio_get_devices := Some [] \<rparr>"]
  by (simp add: four_drives_def split: option.splits)

subsection \<open>The read-speed property\<close>

lemma read_speed_range_signed:
  "(minimum read_speed_pspec \<le>s v \<and> v \<le>s maximum read_speed_pspec) =
     (- 1 \<le> sint v \<and> sint v \<le> 100)"
  by (simp add: read_speed_pspec_def word_sle_eq)

lemma set_get_property_read_speed:
  "fst (gst_cdio_cdda_src_get_property
          (fst (gst_cdio_cdda_src_set_property src PROP_READ_SPEED v)) PROP_READ_SPEED) = Some v"
  by (simp add: gst_cdio_cdda_src_get_property_def gst_cdio_cdda_src_set_property_def)

lemma set_property_stores_any_value:
  "read_speed (fst (gst_cdio_cdda_src_set_property src PROP_READ_SPEED v)) = v"
  by (simp add: gst_cdio_cdda_src_set_property_def)

lemma g_object_set_read_speed_in_range:
  assumes "- 1 \<le> sint (read_speed src) \<and> sint (read_speed src) \<le> 100"
  shows "- 1 \<le> sint (read_speed (g_object_set_read_speed policy read_speed_pspec src v))
         \<and> sint (read_speed (g_object_set_read_speed policy read_speed_pspec src v)) \<le> 100"
proof (cases "minimum read_speed_pspec \<le>s v \<and> v \<le>s maximum read_speed_pspec")
  case True
  then have "g_object_set_read_speed policy read_speed_pspec src v = src\<lparr> read_speed := v \<rparr>"
    by (simp add: g_object_set_read_speed_def gst_cdio_cdda_src_set_property_def)
  with True show ?thesis
    by (simp add: read_speed_range_signed)
next
  case False
  then have out:
    "g_object_set_read_speed policy read_speed_pspec src v =
       (case policy of
          Reject \<Rightarrow> src
        | Clamp \<Rightarrow>
            fst (gst_cdio_cdda_src_set_property src PROP_READ_SPEED
                   (if v <s minimum read_speed_pspec then minimum read_speed_pspec
                    else maximum read_speed_pspec)))"
    unfolding g_object_set_read_speed_def by (rule if_not_P)
  show ?thesis
  proof (cases policy)
    case Reject
    with assms out show ?thesis
      by simp
  next
    case Clamp
    with out show ?thesis
      by (simp add: gst_cdio_cdda_src_set_property_def read_speed_pspec_def)
  qed
qed

lemma foldl_set_read_speed_in_range:
  "- 1 \<le> sint (read_speed src) \<and> sint (read_speed src) \<le> 100 \<Longrightarrow>
   - 1 \<le> sint (read_speed (foldl (g_object_set_read_speed policy read_speed_pspec) src vs))
   \<and> sint (read_speed (foldl (g_object_set_read_speed policy read_speed_pspec) src vs)) \<le> 100"
proof (induction vs arbitrary: src)
  case Nil
  then show ?case by simp
next
  case (Cons v vs)
  from Cons.prems have
    "- 1 \<le> sint (read_speed (g_object_set_read_speed policy read_speed_pspec src v))
     \<and> sint (read_speed (g_object_set_read_speed policy read_speed_pspec src v)) \<le> 100"
    by (rule g_object_set_read_speed_in_range)
  then show ?case
    using Cons.IH by simp
qed

text \<open>
  C8. For every \<open>v\<close> in \<open>[-1, 100]\<close>, setting the read-speed property to \<open>v\<close> and getting
  it back returns \<open>v\<close>, through the host's property call and on the element's two functions
  alone. Whichever of the two policies the host applies to a value out of range (the same
  one at every write), the stored read speed lies in \<open>[-1, 100]\<close> after any run of writes
  on a fresh element.
\<close>

theorem read_speed_round_trip_and_range:
  "(- 1 \<le> sint v \<and> sint v \<le> 100 \<longrightarrow>
      g_object_get_read_speed (g_object_set_read_speed policy read_speed_pspec src v) = Some v
      \<and> fst (gst_cdio_cdda_src_get_property
               (fst (gst_cdio_cdda_src_set_property src PROP_READ_SPEED v)) PROP_READ_SPEED) = Some v)
   \<and> - 1 \<le> sint (read_speed (set_read_speeds policy vs))
   \<and> sint (read_speed (set_read_speeds policy vs)) \<le> 100"
proof -
  have "g_object_get_read_speed (g_object_set_read_speed policy read_speed_pspec src v) = Some v"
    if "- 1 \<le> sint v \<and> sint v \<le> 100"
    using that read_speed_range_signed [of v]
    by (simp add: g_object_get_read_speed_def g_object_set_read_speed_def
          set_get_property_read_speed)
  moreover have "- 1 \<le> sint (read_speed gst_cdio_cdda_src_init)
                 \<and> sint (read_speed gst_cdio_cdda_src_init) \<le> 100"
    by (simp add: gst_cdio_cdda_src_init_def DEFAULT_READ_SPEED_def)
  then have "- 1 \<le> sint (read_speed (set_read_speeds policy vs))
             \<and> sint (read_speed (set_read_speeds policy vs)) \<le> 100"
    unfolding set_read_speeds_def by (rule foldl_set_read_speed_in_range)
  ultimately show ?thesis
    using set_get_property_read_speed [of src v] by blast
qed

theorem read_speed_round_trip_and_range_witness:
  "- 1 \<le> sint (8 :: gint) \<and> sint (8 :: gint) \<le> 100
   \<and> g_object_get_read_speed
       (g_object_set_read_speed Reject read_speed_pspec gst_cdio_cdda_src_init 8) = Some 8
   \<and> read_speed (set_read_speeds Reject [5, 200, - 7]) = 5
   \<and> read_speed (set_read_speeds Clamp [5, 200, - 7]) = - 1"
  using read_speed_round_trip_and_range [of 8 Reject gst_cdio_cdda_src_init "[5, 200, - 7]"]
  by (simp add: set_read_speeds_def g_object_set_read_speed_def
        gst_cdio_cdda_src_set_property_def read_speed_pspec_def gst_cdio_cdda_src_init_def
        DEFAULT_READ_SPEED_def word_sle_eq word_sless_alt)

subsection \<open>The loop of \<open>open\<close>\<close>

text \<open>
  The counter of the loop never wraps: it is below \<open>num_tracks\<close> when it is incremented.
  So the loop adds one track for each \<open>k\<close> from the counter up to \<open>num_tracks\<close>, in
  this order, and the events of each.
\<close>

lemma sint_succ_of_sless:
  fixes i n :: gint
  assumes "i <s n"
  shows "sint (i + 1) = sint i + 1"
proof -
  have "sint i < sint n" using assms by (simp add: word_sless_alt)
  moreover have "sint n < 2 ^ 31" using sint_lt [of n] by simp
  moreover have "- (2 ^ 31) \<le> sint i" using sint_ge [of i] by simp
  ultimately have "- (2 ^ 31) \<le> sint i + 1" and "sint i + 1 < 2 ^ 31" by arith+
  then have "signed_take_bit 31 (sint i + 1) = sint i + 1"
    by (simp add: signed_take_bit_int_eq_self)
  then show ?thesis by (simp add: sint_word_ariths)
qed

lemma upt_gint_Cons:
  fixes i n :: gint
  assumes lt: "sint i < sint n" and nn: "0 \<le> sint i" and suc: "sint (i + 1) = sint i + 1"
  shows "[nat (sint i)..<nat (sint n)] = nat (sint i) # [nat (sint (i + 1))..<nat (sint n)]"
proof -
  have a: "nat (sint i) < nat (sint n)" using lt nn by arith
  have b: "nat (sint (i + 1)) = Suc (nat (sint i))" using nn suc by arith
  show ?thesis unfolding b using a by (rule upt_conv_Cons)
qed

lemma open_loop_unfold:
  "0 \<le> sint i \<Longrightarrow> sint i \<le> sint num_tracks \<Longrightarrow>
   open_loop lib p_cdio first_track num_tracks i acc =
     (fst acc @ map (\<lambda>k. fst (open_track lib p_cdio (of_nat k + first_track)))
                 [nat (sint i)..<nat (sint num_tracks)],
      snd acc @ concat (map (\<lambda>k. snd (open_track lib p_cdio (of_nat k + first_track)))
                 [nat (sint i)..<nat (sint num_tracks)]))"
proof (induction lib p_cdio first_track num_tracks i acc rule: open_loop.induct)
  case (1 lib p_cdio first_track num_tracks i acc)
  show ?case
  proof (cases "i <s num_tracks")
    case True
    then have lt: "sint i < sint num_tracks" by (simp add: word_sless_alt)
    have suc: "sint (i + 1) = sint i + 1" using True by (rule sint_succ_of_sless)
    obtain track ev where tr: "open_track lib p_cdio (i + first_track) = (track, ev)"
      by (cases "open_track lib p_cdio (i + first_track)")
    have p1: "0 \<le> sint (i + 1)" using "1.prems" suc by arith
    have p2: "sint (i + 1) \<le> sint num_tracks" using lt suc by arith
    note ih = "1.IH" [OF True tr [symmetric] refl p1 p2]
    have upt: "[nat (sint i)..<nat (sint num_tracks)] =
                 nat (sint i) # [nat (sint (i + 1))..<nat (sint num_tracks)]"
      using lt "1.prems"(1) suc by (rule upt_gint_Cons)
    have ofn: "(of_nat (nat (sint i)) :: gint) = i" using "1.prems"(1) by simp
    have unf: "open_loop lib p_cdio first_track num_tracks i acc =
       open_loop lib p_cdio first_track num_tracks (i + 1) (fst acc @ [track], snd acc @ ev)"
      by (subst open_loop.simps) (simp only: True if_True tr Let_def split_conv)
    show ?thesis
      unfolding unf ih upt
      by (simp only: list.map concat.simps ofn tr fst_conv snd_conv append_assoc append_Cons append_Nil)
  next
    case False
    then have "sint num_tracks \<le> sint i" by (simp add: word_sless_alt)
    then have e: "[nat (sint i)..<nat (sint num_tracks)] = []" by simp
    have u: "open_loop lib p_cdio first_track num_tracks i acc = acc"
      by (subst open_loop.simps) (simp only: False if_False)
    show ?thesis unfolding u e by simp
  qed
qed

lemma sint_gint_of_int:
  "- (2 ^ 31) \<le> k \<Longrightarrow> k < 2 ^ 31 \<Longrightarrow> sint (word_of_int k :: gint) = k"
  by (simp add: sint_sbintrunc' signed_take_bit_int_eq_self)

lemma sint_track_end:
  fixes track_start len_sectors :: gint
  assumes "- (2 ^ 31) \<le> sint track_start + sint len_sectors - 1"
    "sint track_start + sint len_sectors - 1 < 2 ^ 31"
  shows "sint (track_start + len_sectors - 1) = sint track_start + sint len_sectors - 1"
proof -
  have "track_start + len_sectors - 1 =
          (word_of_int (sint track_start + sint len_sectors - 1) :: gint)"
    by simp
  then show ?thesis using assms by (simp only: sint_gint_of_int)
qed

lemma open_track_fields:
  "num (fst (open_track lib p_cdio t)) = t"
  "start (fst (open_track lib p_cdio t)) = cdio_get_track_lsn p_cdio t"
  "end_sector (fst (open_track lib p_cdio t)) =
     cdio_get_track_lsn p_cdio t + cdio_get_track_sec_count p_cdio t - 1"
  "is_audio (fst (open_track lib p_cdio t)) =
     (cdio_get_track_format p_cdio (ucast t) = TRACK_FORMAT_AUDIO)"
  by (simp_all add: open_track_def Let_def notcdio_track_is_audio_track_def split: prod.splits)

subsection \<open>The paths through \<open>open\<close>\<close>

lemma open_device_unavailable:
  assumes "cdio src = None" "cdio_open lib dev = Inl e"
  shows "gst_cdio_cdda_src_open lib src (Some dev) =
     Some \<lparr> open_ret = False, open_src = src\<lparr> cdio := None \<rparr>, open_tracks = [],
            open_events = [Log LOG (Trying_to_open_device dev),
              ELEMENT_ERROR OPEN_READ ''Could not open CD device for reading.'' (Cdio_open_failed e)] \<rparr>"
  using assms by (simp add: gst_cdio_cdda_src_open_def)

lemma open_not_audio:
  assumes "cdio src = None" "cdio_open lib dev = Inr p_cdio"
    "cdio_get_discmode p_cdio \<noteq> CDIO_DISC_MODE_CD_DA"
    "cdio_get_discmode p_cdio \<noteq> CDIO_DISC_MODE_CD_MIXED"
  shows "gst_cdio_cdda_src_open lib src (Some dev) =
     Some \<lparr> open_ret = False, open_src = src\<lparr> cdio := Some p_cdio \<rparr>, open_tracks = [],
            open_events = [Log LOG (Trying_to_open_device dev), Log LOG (Discmode (cdio_get_discmode p_cdio)),
              ELEMENT_ERROR OPEN_READ ''Disc is not an Audio CD.'' (Discmode_is (cdio_get_discmode p_cdio))] \<rparr>"
  using assms by (simp add: gst_cdio_cdda_src_open_def Let_def)

lemma open_no_tracks:
  assumes "cdio src = None" "cdio_open lib dev = Inr p_cdio"
    "cdio_get_discmode p_cdio = CDIO_DISC_MODE_CD_DA \<or> cdio_get_discmode p_cdio = CDIO_DISC_MODE_CD_MIXED"
    "cdio_get_num_tracks p_cdio \<le>s 0 \<or> cdio_get_first_track_num p_cdio <s 0"
  shows "gst_cdio_cdda_src_open lib src (Some dev) =
     Some \<lparr> open_ret = True, open_src = src\<lparr> cdio := Some p_cdio \<rparr>, open_tracks = [],
            open_events = [Log LOG (Trying_to_open_device dev), Log LOG (Discmode (cdio_get_discmode p_cdio))] \<rparr>"
  using assms by (auto simp add: gst_cdio_cdda_src_open_def Let_def)

lemma open_enumerates:
  assumes "cdio src = None" "cdio_open lib dev = Inr p_cdio"
    "cdio_get_discmode p_cdio = CDIO_DISC_MODE_CD_DA \<or> cdio_get_discmode p_cdio = CDIO_DISC_MODE_CD_MIXED"
    "\<not> cdio_get_num_tracks p_cdio \<le>s 0" "\<not> cdio_get_first_track_num p_cdio <s 0"
  shows "gst_cdio_cdda_src_open lib src (Some dev) =
     Some \<lparr> open_ret = True, open_src = src\<lparr> cdio := Some p_cdio \<rparr>,
            open_tracks = fst (open_loop lib p_cdio (cdio_get_first_track_num p_cdio) (cdio_get_num_tracks p_cdio) 0
               ([], [Log LOG (Trying_to_open_device dev), Log LOG (Discmode (cdio_get_discmode p_cdio))] @
                    open_set_speed lib p_cdio (src\<lparr> cdio := Some p_cdio \<rparr>) @
                    [Log LOG (Tracks_first_track (cdio_get_num_tracks p_cdio) (cdio_get_first_track_num p_cdio))])),
            open_events = snd (open_loop lib p_cdio (cdio_get_first_track_num p_cdio) (cdio_get_num_tracks p_cdio) 0
               ([], [Log LOG (Trying_to_open_device dev), Log LOG (Discmode (cdio_get_discmode p_cdio))] @
                    open_set_speed lib p_cdio (src\<lparr> cdio := Some p_cdio \<rparr>) @
                    [Log LOG (Tracks_first_track (cdio_get_num_tracks p_cdio) (cdio_get_first_track_num p_cdio))])) \<rparr>"
  using assms by (auto simp add: gst_cdio_cdda_src_open_def Let_def split: prod.splits)

lemma open_Some_cases:
  assumes "gst_cdio_cdda_src_open lib src device = Some r"
  obtains
    (unavailable) dev e where "device = Some dev" "cdio src = None" "cdio_open lib dev = Inl e"
  | (not_audio) dev p_cdio where "device = Some dev" "cdio src = None" "cdio_open lib dev = Inr p_cdio"
      "cdio_get_discmode p_cdio \<noteq> CDIO_DISC_MODE_CD_DA" "cdio_get_discmode p_cdio \<noteq> CDIO_DISC_MODE_CD_MIXED"
  | (no_tracks) dev p_cdio where "device = Some dev" "cdio src = None" "cdio_open lib dev = Inr p_cdio"
      "cdio_get_discmode p_cdio = CDIO_DISC_MODE_CD_DA \<or> cdio_get_discmode p_cdio = CDIO_DISC_MODE_CD_MIXED"
      "cdio_get_num_tracks p_cdio \<le>s 0 \<or> cdio_get_first_track_num p_cdio <s 0"
  | (enumerates) dev p_cdio where "device = Some dev" "cdio src = None" "cdio_open lib dev = Inr p_cdio"
      "cdio_get_discmode p_cdio = CDIO_DISC_MODE_CD_DA \<or> cdio_get_discmode p_cdio = CDIO_DISC_MODE_CD_MIXED"
      "\<not> cdio_get_num_tracks p_cdio \<le>s 0" "\<not> cdio_get_first_track_num p_cdio <s 0"
proof -
  from assms obtain dev where dev: "device = Some dev"
    by (cases device) (simp_all add: gst_cdio_cdda_src_open_def)
  from assms dev have closed: "cdio src = None"
    by (cases "cdio src") (simp_all add: gst_cdio_cdda_src_open_def)
  show thesis
  proof (cases "cdio_open lib dev")
    case (Inl e)
    with dev closed show thesis by (rule unavailable)
  next
    case (Inr p_cdio)
    show thesis
    proof (cases "cdio_get_discmode p_cdio = CDIO_DISC_MODE_CD_DA \<or> cdio_get_discmode p_cdio = CDIO_DISC_MODE_CD_MIXED")
      case False
      then show thesis using dev closed Inr not_audio by blast
    next
      case True
      then show thesis using dev closed Inr no_tracks enumerates by blast
    qed
  qed
qed

lemma open_enumerated_tracks:
  assumes "cdio src = None" "cdio_open lib dev = Inr p_cdio"
    "cdio_get_discmode p_cdio = CDIO_DISC_MODE_CD_DA \<or> cdio_get_discmode p_cdio = CDIO_DISC_MODE_CD_MIXED"
    "\<not> cdio_get_num_tracks p_cdio \<le>s 0" "\<not> cdio_get_first_track_num p_cdio <s 0"
  shows "gst_cdio_cdda_src_open lib src (Some dev) =
     Some \<lparr> open_ret = True, open_src = src\<lparr> cdio := Some p_cdio \<rparr>,
            open_tracks = map (\<lambda>k. fst (open_track lib p_cdio (of_nat k + cdio_get_first_track_num p_cdio)))
                            [0..<nat (sint (cdio_get_num_tracks p_cdio))],
            open_events = [Log LOG (Trying_to_open_device dev), Log LOG (Discmode (cdio_get_discmode p_cdio))] @
                    open_set_speed lib p_cdio (src\<lparr> cdio := Some p_cdio \<rparr>) @
                    [Log LOG (Tracks_first_track (cdio_get_num_tracks p_cdio) (cdio_get_first_track_num p_cdio))] @
                    concat (map (\<lambda>k. snd (open_track lib p_cdio (of_nat k + cdio_get_first_track_num p_cdio)))
                            [0..<nat (sint (cdio_get_num_tracks p_cdio))]) \<rparr>"
proof -
  have "0 \<le> sint (0 :: gint)" by simp
  moreover have "sint (0 :: gint) \<le> sint (cdio_get_num_tracks p_cdio)"
    using assms(4) by (simp add: word_sle_eq)
  ultimately show ?thesis
    unfolding open_enumerates [OF assms]
    by (simp add: open_loop_unfold)
qed

lemma open_mixed_cd:
  "gst_cdio_cdda_src_open four_drives gst_cdio_cdda_src_init (Some ''/dev/cdrom'') =
     Some \<lparr> open_ret = True,
            open_src = \<lparr> cdio = Some mixed_cd, read_speed = - 1 \<rparr>,
            open_tracks =
              [\<lparr> is_audio = True, num = 1, start = 0, end_sector = 999, tags = None \<rparr>,
               \<lparr> is_audio = False, num = 2, start = 1000, end_sector = 1999, tags = None \<rparr>],
            open_events =
              [Log LOG (Trying_to_open_device ''/dev/cdrom''),
               Log LOG (Discmode CDIO_DISC_MODE_CD_MIXED),
               Log LOG (Tracks_first_track 2 1),
               Log DEBUG (No_cdtext_for_track 1),
               Log DEBUG (No_cdtext_for_track 2)] \<rparr>"
proof -
  have a: "cdio gst_cdio_cdda_src_init = None"
    by (simp add: gst_cdio_cdda_src_init_def)
  have b: "cdio_open four_drives ''/dev/cdrom'' = Inr mixed_cd"
    by (simp add: four_drives_def)
  have c: "cdio_get_discmode mixed_cd = CDIO_DISC_MODE_CD_DA \<or> cdio_get_discmode mixed_cd = CDIO_DISC_MODE_CD_MIXED"
    by (simp add: mixed_cd_def)
  have d: "\<not> cdio_get_num_tracks mixed_cd \<le>s 0"
    by (simp add: mixed_cd_def word_sle_eq)
  have e: "\<not> cdio_get_first_track_num mixed_cd <s 0"
    by (simp add: mixed_cd_def word_sless_alt)
  have n: "[0..<nat (sint (cdio_get_num_tracks mixed_cd))] = [0, 1]"
    by (simp add: mixed_cd_def numeral_2_eq_2)
  have v: "LIBCDIO_VERSION_NUM four_drives = 76"
    by (simp add: four_drives_def)
  show ?thesis
    unfolding open_enumerated_tracks [OF a b c d e] n
    by (simp add: open_track_def gst_cdio_cdda_src_get_cdtext_def v open_set_speed_def
          notcdio_track_is_audio_track_def gst_cdio_cdda_src_init_def DEFAULT_READ_SPEED_def mixed_cd_def)
qed

subsection \<open>Failed and empty opens\<close>

lemma failed_open_state:
  assumes "gst_cdio_cdda_src_open lib src device = Some r" and "\<not> open_ret r"
  shows "open_tracks r = []
         \<and> (cdio (open_src r) = None) = (\<exists>dev e. device = Some dev \<and> cdio_open lib dev = Inl e)"
  using assms(1)
proof (cases rule: open_Some_cases)
  case (unavailable dev e)
  with assms(1) show ?thesis
    by (auto simp add: open_device_unavailable)
next
  case (not_audio dev p_cdio)
  with assms(1) show ?thesis
    by (auto simp add: open_not_audio)
next
  case (no_tracks dev p_cdio)
  with assms show ?thesis
    by (auto simp add: open_no_tracks)
next
  case (enumerates dev p_cdio)
  with assms show ?thesis
    by (auto simp add: open_enumerates)
qed

text \<open>
  C2, on the code. Opening the drive with the data disc fails, adds no track and posts the
  error, and the element still holds the handle it has just opened: nothing has destroyed
  it. The next \<open>open\<close> of this element then fails its own assertion that the element
  holds no handle.
\<close>

theorem open_not_audio_keeps_handle:
  "gst_cdio_cdda_src_open four_drives gst_cdio_cdda_src_init (Some ''/dev/sr1'') =
     Some \<lparr> open_ret = False,
            open_src = \<lparr> cdio = Some data_cd, read_speed = - 1 \<rparr>,
            open_tracks = [],
            open_events =
              [Log LOG (Trying_to_open_device ''/dev/sr1''),
               Log LOG (Discmode (Other_discmode 1)),
               ELEMENT_ERROR OPEN_READ ''Disc is not an Audio CD.''
                 (Discmode_is (Other_discmode 1))] \<rparr>
   \<and> gst_cdio_cdda_src_open four_drives \<lparr> cdio = Some data_cd, read_speed = - 1 \<rparr>
         (Some ''/dev/cdrom'') = None
   \<and> gst_cdio_cdda_src_open four_drives gst_cdio_cdda_src_init (Some ''/dev/none'') =
     Some \<lparr> open_ret = False,
            open_src = \<lparr> cdio = None, read_speed = - 1 \<rparr>,
            open_tracks = [],
            open_events =
              [Log LOG (Trying_to_open_device ''/dev/none''),
               ELEMENT_ERROR OPEN_READ ''Could not open CD device for reading.''
                 (Cdio_open_failed 2)] \<rparr>"
  by (simp add: gst_cdio_cdda_src_open_def four_drives_def data_cd_def mixed_cd_def
        gst_cdio_cdda_src_init_def DEFAULT_READ_SPEED_def Let_def)

text \<open>
  C5. When the device opens and the mode check passes, but the disc reports no tracks
  (\<open>num_tracks \<le> 0\<close>) or a negative first track number, \<open>open\<close> returns success with
  no track added and no error posted; the element holds the handle.
\<close>

theorem open_empty_disc_succeeds:
  assumes "cdio src = None" and "cdio_open lib dev = Inr p_cdio"
    and "cdio_get_discmode p_cdio = CDIO_DISC_MODE_CD_DA
         \<or> cdio_get_discmode p_cdio = CDIO_DISC_MODE_CD_MIXED"
    and "cdio_get_num_tracks p_cdio \<le>s 0 \<or> cdio_get_first_track_num p_cdio <s 0"
  shows "\<exists>r. gst_cdio_cdda_src_open lib src (Some dev) = Some r
             \<and> open_ret r \<and> open_tracks r = [] \<and> element_errors (open_events r) = []
             \<and> open_src r = src\<lparr> cdio := Some p_cdio \<rparr>"
  unfolding open_no_tracks [OF assms] by simp

theorem open_empty_disc_succeeds_witness:
  "cdio gst_cdio_cdda_src_init = None
   \<and> cdio_open four_drives ''/dev/sr2'' = Inr empty_cd
   \<and> cdio_get_discmode empty_cd = CDIO_DISC_MODE_CD_DA
   \<and> cdio_get_num_tracks empty_cd \<le>s 0
   \<and> (\<exists>r. gst_cdio_cdda_src_open four_drives gst_cdio_cdda_src_init (Some ''/dev/sr2'') = Some r
             \<and> open_ret r \<and> open_tracks r = [] \<and> element_errors (open_events r) = []
             \<and> open_src r = \<lparr> cdio = Some empty_cd, read_speed = - 1 \<rparr>)"
proof -
  have a: "cdio gst_cdio_cdda_src_init = None"
    by (simp add: gst_cdio_cdda_src_init_def)
  have b: "cdio_open four_drives ''/dev/sr2'' = Inr empty_cd"
    by (simp add: four_drives_def)
  have c: "cdio_get_discmode empty_cd = CDIO_DISC_MODE_CD_DA"
    by (simp add: empty_cd_def)
  have d: "cdio_get_num_tracks empty_cd \<le>s 0"
    by (simp add: empty_cd_def)
  have s: "gst_cdio_cdda_src_init\<lparr> cdio := Some empty_cd \<rparr> = \<lparr> cdio = Some empty_cd, read_speed = - 1 \<rparr>"
    by (simp add: gst_cdio_cdda_src_init_def DEFAULT_READ_SPEED_def)
  from open_empty_disc_succeeds [OF a b disjI1 [OF c] disjI1 [OF d]] a b c d
  show ?thesis unfolding s by blast
qed

subsection \<open>The tracks of a successful open\<close>

lemma open_tracks_cases:
  assumes "gst_cdio_cdda_src_open lib src device = Some r" and "cdio (open_src r) = Some p_cdio"
  shows "open_tracks r = []
         \<or> open_ret r
           \<and> \<not> cdio_get_num_tracks p_cdio \<le>s 0 \<and> \<not> cdio_get_first_track_num p_cdio <s 0
           \<and> open_tracks r =
               map (\<lambda>k. fst (open_track lib p_cdio (of_nat k + cdio_get_first_track_num p_cdio)))
                 [0..<nat (sint (cdio_get_num_tracks p_cdio))]"
  using assms(1)
proof (cases rule: open_Some_cases)
  case (unavailable dev e)
  with assms(1) show ?thesis
    by (auto simp add: open_device_unavailable)
next
  case (not_audio dev q)
  with assms(1) show ?thesis
    by (auto simp add: open_not_audio)
next
  case (no_tracks dev q)
  with assms(1) show ?thesis
    by (auto simp add: open_no_tracks)
next
  case (enumerates dev q)
  from assms(1) have "Some r = gst_cdio_cdda_src_open lib src (Some dev)"
    using enumerates(1) by simp
  then have r: "r = \<lparr> open_ret = True, open_src = src\<lparr> cdio := Some q \<rparr>,
            open_tracks = map (\<lambda>k. fst (open_track lib q (of_nat k + cdio_get_first_track_num q)))
                            [0..<nat (sint (cdio_get_num_tracks q))],
            open_events = [Log LOG (Trying_to_open_device dev), Log LOG (Discmode (cdio_get_discmode q))] @
                    open_set_speed lib q (src\<lparr> cdio := Some q \<rparr>) @
                    [Log LOG (Tracks_first_track (cdio_get_num_tracks q) (cdio_get_first_track_num q))] @
                    concat (map (\<lambda>k. snd (open_track lib q (of_nat k + cdio_get_first_track_num q)))
                            [0..<nat (sint (cdio_get_num_tracks q))]) \<rparr>"
    unfolding open_enumerated_tracks [OF enumerates(2-6)] by simp
  with assms(2) have "q = p_cdio" by simp
  with r enumerates show ?thesis by simp
qed

text \<open>
  C4. For every track that \<open>open\<close> adds, the start sector is the logical sector number
  the library reports for the track, and the end sector is the start plus the sector
  count the library reports for it, minus one: in \<^verbatim>\<open>gint\<close> arithmetic always, and as
  integers whenever that value is in the \<^verbatim>\<open>gint\<close> range.
\<close>

theorem track_end_is_start_plus_length_minus_one:
  assumes "gst_cdio_cdda_src_open lib src device = Some r"
    and "cdio (open_src r) = Some p_cdio"
    and "t \<in> set (open_tracks r)"
  shows "start t = cdio_get_track_lsn p_cdio (num t)
         \<and> end_sector t = start t + cdio_get_track_sec_count p_cdio (num t) - 1
         \<and> (- (2 ^ 31) \<le> sint (start t) + sint (cdio_get_track_sec_count p_cdio (num t)) - 1
              \<and> sint (start t) + sint (cdio_get_track_sec_count p_cdio (num t)) - 1 < 2 ^ 31
             \<longrightarrow> sint (end_sector t) =
                   sint (start t) + sint (cdio_get_track_sec_count p_cdio (num t)) - 1)"
proof -
  from open_tracks_cases [OF assms(1,2)] assms(3)
  obtain k where t: "t = fst (open_track lib p_cdio (of_nat k + cdio_get_first_track_num p_cdio))"
    by auto
  have 1: "start t = cdio_get_track_lsn p_cdio (num t)"
    and 2: "end_sector t = start t + cdio_get_track_sec_count p_cdio (num t) - 1"
    unfolding t by (simp_all add: open_track_fields)
  from 1 2 show ?thesis
    by (simp add: sint_track_end)
qed

theorem track_end_is_start_plus_length_minus_one_witness:
  "\<exists>r. gst_cdio_cdda_src_open four_drives gst_cdio_cdda_src_init (Some ''/dev/cdrom'') = Some r
       \<and> cdio (open_src r) = Some mixed_cd
       \<and> \<lparr> is_audio = False, num = 2, start = 1000, end_sector = 1999, tags = None \<rparr>
           \<in> set (open_tracks r)
       \<and> cdio_get_track_lsn mixed_cd 2 = 1000
       \<and> cdio_get_track_sec_count mixed_cd 2 = 1000
       \<and> (1999 :: gint) = 1000 + 1000 - 1
       \<and> sint (1999 :: gint) = sint (1000 :: gint) + sint (1000 :: gint) - 1"
proof -
  let ?t = "\<lparr> is_audio = False, num = 2, start = 1000, end_sector = 1999, tags = None \<rparr>"
  obtain r where r: "gst_cdio_cdda_src_open four_drives gst_cdio_cdda_src_init (Some ''/dev/cdrom'') = Some r"
    and h: "cdio (open_src r) = Some mixed_cd" and t: "?t \<in> set (open_tracks r)"
    by (simp add: open_mixed_cd)
  from track_end_is_start_plus_length_minus_one [OF r h t] r h t
  show ?thesis
    by (simp add: mixed_cd_def)
qed

lemma open_successful_tracks:
  assumes "gst_cdio_cdda_src_open lib src device = Some r" and "open_ret r"
    and "cdio (open_src r) = Some p_cdio"
    and "\<not> cdio_get_num_tracks p_cdio \<le>s 0" and "\<not> cdio_get_first_track_num p_cdio <s 0"
  shows "open_tracks r =
           map (\<lambda>k. fst (open_track lib p_cdio (of_nat k + cdio_get_first_track_num p_cdio)))
             [0..<nat (sint (cdio_get_num_tracks p_cdio))]"
  using assms(1)
proof (cases rule: open_Some_cases)
  case (unavailable dev e)
  with assms(1,2) show ?thesis
    by (auto simp add: open_device_unavailable)
next
  case (not_audio dev q)
  with assms(1,2) show ?thesis
    by (auto simp add: open_not_audio)
next
  case (no_tracks dev q)
  with assms show ?thesis
    by (auto simp add: open_no_tracks)
next
  case (enumerates dev q)
  with assms(1,3) show ?thesis
    by (auto simp add: open_enumerated_tracks)
qed

lemma uint_guint_of_int:
  "0 \<le> k \<Longrightarrow> k < 2 ^ 32 \<Longrightarrow> uint (word_of_int k :: guint) = k"
  by (simp add: uint_word_of_int_eq take_bit_int_eq_self)

lemma uint_of_gint_nonneg:
  fixes x :: gint
  assumes "0 \<le> sint x"
  shows "uint x = sint x"
proof -
  have "sint x < 2 ^ 32"
    using sint_lt [of x] by simp
  with assms have "take_bit 32 (sint x) = sint x"
    by (simp add: take_bit_int_eq_self)
  then show ?thesis
    by (simp add: uint_sint)
qed

lemma uint_track_number:
  fixes first_track :: gint
  assumes "0 \<le> sint first_track" "int k < 2 ^ 31"
  shows "uint (of_nat k + first_track) = uint first_track + int k"
proof -
  have u: "uint first_track = sint first_track"
    using assms(1) by (rule uint_of_gint_nonneg)
  have "sint first_track < 2 ^ 31"
    using sint_lt [of first_track] by simp
  with assms have "0 \<le> sint first_track + int k" and "sint first_track + int k < 2 ^ 32"
    by simp_all
  moreover have "of_nat k + first_track = (word_of_int (sint first_track + int k) :: guint)"
    by simp
  ultimately show ?thesis
    unfolding u by (simp only: uint_guint_of_int)
qed

lemma uint_track_end:
  fixes track_start len_sectors :: gint
  assumes "0 \<le> sint track_start" "1 \<le> sint len_sectors"
  shows "uint (track_start + len_sectors - 1) = sint track_start + sint len_sectors - 1"
proof -
  have "sint track_start < 2 ^ 31" and "sint len_sectors < 2 ^ 31"
    using sint_lt [of track_start] sint_lt [of len_sectors] by simp_all
  with assms have "0 \<le> sint track_start + sint len_sectors - 1"
    and "sint track_start + sint len_sectors - 1 < 2 ^ 32"
    by simp_all
  moreover have "track_start + len_sectors - 1 =
          (word_of_int (sint track_start + sint len_sectors - 1) :: guint)"
    by simp
  ultimately show ?thesis
    by (simp only: uint_guint_of_int)
qed

lemma reported_layout_ascendingD:
  assumes "reported_layout_ascending p_cdio"
  shows "\<And>k. k < nat (sint (cdio_get_num_tracks p_cdio)) \<Longrightarrow>
           0 \<le> sint (cdio_get_track_lsn p_cdio (of_nat k + cdio_get_first_track_num p_cdio))
           \<and> 1 \<le> sint (cdio_get_track_sec_count p_cdio (of_nat k + cdio_get_first_track_num p_cdio))"
    and "\<And>k. Suc k < nat (sint (cdio_get_num_tracks p_cdio)) \<Longrightarrow>
           sint (cdio_get_track_lsn p_cdio (of_nat k + cdio_get_first_track_num p_cdio))
             + sint (cdio_get_track_sec_count p_cdio (of_nat k + cdio_get_first_track_num p_cdio))
           \<le> sint (cdio_get_track_lsn p_cdio (of_nat (Suc k) + cdio_get_first_track_num p_cdio))"
  using assms
  by (auto simp add: reported_layout_ascending_def Let_def list_all_iff simp del: of_nat_Suc)

lemma layout_ascending:
  fixes lsn len :: "nat \<Rightarrow> int"
  assumes len: "\<And>k. k < n \<Longrightarrow> 1 \<le> len k"
    and next_track: "\<And>k. Suc k < n \<Longrightarrow> lsn k + len k \<le> lsn (Suc k)"
  shows "i < j \<Longrightarrow> j < n \<Longrightarrow> lsn i + len i \<le> lsn j"
proof (induction j)
  case 0
  then show ?case by simp
next
  case (Suc j)
  show ?case
  proof (cases "i = j")
    case True
    with Suc.prems next_track [of j] show ?thesis by simp
  next
    case False
    with Suc.prems have "i < j" and "j < n" by simp_all
    then have "lsn i + len i \<le> lsn j" by (rule Suc.IH)
    moreover have "1 \<le> len j" using \<open>j < n\<close> by (rule len)
    moreover have "lsn j + len j \<le> lsn (Suc j)" using Suc.prems(2) by (rule next_track)
    ultimately show ?thesis by arith
  qed
qed

text \<open>
  C1, as the code has it. Take a successful \<open>open\<close> of a disc with \<open>num_tracks > 0\<close> and
  \<open>first_track \<ge> 0\<close>. It adds one track for each of the disc's tracks, and their numbers
  are \<open>first_track, first_track + 1, \<dots>, first_track + num_tracks - 1\<close> in this order,
  so strictly ascending. The sectors are those the library reports, unchecked: if the
  library reports for every track a start that is not negative and at least one sector,
  and for every track but the last that it has ended when the next one starts, then every
  track has \<open>start \<le> end\<close> and ends before any later track of the list starts.
\<close>

theorem open_tracks_numbered_and_layout_as_reported:
  assumes "gst_cdio_cdda_src_open lib src device = Some r"
    and "open_ret r"
    and "cdio (open_src r) = Some p_cdio"
    and "0 <s cdio_get_num_tracks p_cdio"
    and "0 \<le>s cdio_get_first_track_num p_cdio"
  shows "map (\<lambda>t. uint (num t)) (open_tracks r) =
           map (\<lambda>k. uint (cdio_get_first_track_num p_cdio) + int k)
             [0..<nat (sint (cdio_get_num_tracks p_cdio))]
         \<and> sorted_wrt (\<lambda>a b. uint (num a) < uint (num b)) (open_tracks r)
         \<and> (reported_layout_ascending p_cdio \<longrightarrow>
              list_all (\<lambda>t. uint (start t) \<le> uint (end_sector t)) (open_tracks r)
              \<and> sorted_wrt (\<lambda>a b. uint (end_sector a) < uint (start b)) (open_tracks r))"
proof -
  define first_track where "first_track = cdio_get_first_track_num p_cdio"
  define n where "n = nat (sint (cdio_get_num_tracks p_cdio))"
  define track where "track k = fst (open_track lib p_cdio (of_nat k + first_track))" for k
  define lsn where "lsn k = sint (cdio_get_track_lsn p_cdio (of_nat k + first_track))" for k
  define len where "len k = sint (cdio_get_track_sec_count p_cdio (of_nat k + first_track))" for k
  have first: "0 \<le> sint first_track"
    using assms(5) by (simp add: word_sle_eq first_track_def)
  have "\<not> cdio_get_num_tracks p_cdio \<le>s 0" and "\<not> cdio_get_first_track_num p_cdio <s 0"
    using assms(4,5) by (simp_all add: word_sle_eq word_sless_alt)
  with assms(1,2,3) have tracks: "open_tracks r = map track [0..<n]"
    unfolding track_def [abs_def] first_track_def n_def
    by (rule open_successful_tracks)
  have number: "uint (num (track k)) = uint first_track + int k" if "k < n" for k
  proof -
    have "int k < sint (cdio_get_num_tracks p_cdio)"
      using that by (simp add: n_def)
    moreover have "sint (cdio_get_num_tracks p_cdio) < 2 ^ 31"
      using sint_lt [of "cdio_get_num_tracks p_cdio"] by simp
    ultimately have "int k < 2 ^ 31" by simp
    with first show ?thesis
      by (simp add: track_def open_track_fields uint_track_number)
  qed
  have numbers: "map (\<lambda>t. uint (num t)) (open_tracks r) = map (\<lambda>k. uint first_track + int k) [0..<n]"
    unfolding tracks by (simp add: number)
  have ascending: "sorted_wrt (\<lambda>a b. uint (num a) < uint (num b)) (open_tracks r)"
    unfolding tracks by (simp add: sorted_wrt_iff_nth_less number)
  have sectors: "list_all (\<lambda>t. uint (start t) \<le> uint (end_sector t)) (open_tracks r)
                 \<and> sorted_wrt (\<lambda>a b. uint (end_sector a) < uint (start b)) (open_tracks r)"
    if layout: "reported_layout_ascending p_cdio"
  proof -
    note reported = reported_layout_ascendingD [OF layout, folded first_track_def n_def]
    have track_k: "0 \<le> lsn k \<and> 1 \<le> len k" if "k < n" for k
      unfolding lsn_def len_def using that by (rule reported(1))
    have next_track: "lsn k + len k \<le> lsn (Suc k)" if "Suc k < n" for k
      unfolding lsn_def len_def using that by (rule reported(2))
    have start_k: "uint (start (track k)) = lsn k" if "k < n" for k
      using track_k [OF that]
      by (simp add: track_def lsn_def open_track_fields uint_of_gint_nonneg)
    have end_k: "uint (end_sector (track k)) = lsn k + len k - 1" if "k < n" for k
      using track_k [OF that] unfolding lsn_def len_def
      by (simp add: track_def open_track_fields uint_track_end)
    have len_k: "1 \<le> len k" if "k < n" for k
      using track_k [OF that] by simp
    have later: "lsn i + len i \<le> lsn j" if "i < j" and "j < n" for i j
      using len_k next_track that by (rule layout_ascending)
    have "list_all (\<lambda>t. uint (start t) \<le> uint (end_sector t)) (open_tracks r)"
      unfolding tracks using len_k by (fastforce simp add: list_all_iff start_k end_k)
    moreover have "sorted_wrt (\<lambda>a b. uint (end_sector a) < uint (start b)) (open_tracks r)"
      unfolding tracks sorted_wrt_iff_nth_less
    proof (intro allI impI)
      fix i j
      assume "i < j" and "j < length (map track [0..<n])"
      then have i: "i < n" and j: "j < n" by simp_all
      from later [OF \<open>i < j\<close> j]
      have "lsn i + len i - 1 < lsn j" by simp
      with i j show "uint (end_sector (map track [0..<n] ! i)) < uint (start (map track [0..<n] ! j))"
        by (simp add: start_k end_k)
    qed
    ultimately show ?thesis ..
  qed
  from numbers ascending sectors show ?thesis
    by (simp add: first_track_def n_def)
qed

lemma reported_layout_ascending_mixed_cd: "reported_layout_ascending mixed_cd"
  by (simp add: reported_layout_ascending_def mixed_cd_def Let_def numeral_2_eq_2)

theorem open_tracks_numbered_and_layout_as_reported_witness:
  "\<exists>r. gst_cdio_cdda_src_open four_drives gst_cdio_cdda_src_init (Some ''/dev/cdrom'') = Some r
       \<and> open_ret r \<and> cdio (open_src r) = Some mixed_cd
       \<and> 0 <s cdio_get_num_tracks mixed_cd \<and> 0 \<le>s cdio_get_first_track_num mixed_cd
       \<and> reported_layout_ascending mixed_cd
       \<and> map (\<lambda>t. uint (num t)) (open_tracks r) = [1, 2]
       \<and> map (\<lambda>t. (uint (start t), uint (end_sector t))) (open_tracks r) = [(0, 999), (1000, 1999)]
       \<and> sorted_wrt (\<lambda>a b. uint (num a) < uint (num b)) (open_tracks r)
       \<and> list_all (\<lambda>t. uint (start t) \<le> uint (end_sector t)) (open_tracks r)
       \<and> sorted_wrt (\<lambda>a b. uint (end_sector a) < uint (start b)) (open_tracks r)"
proof -
  obtain r where r: "gst_cdio_cdda_src_open four_drives gst_cdio_cdda_src_init (Some ''/dev/cdrom'') = Some r"
    and ok: "open_ret r" and h: "cdio (open_src r) = Some mixed_cd"
    and ts: "open_tracks r =
              [\<lparr> is_audio = True, num = 1, start = 0, end_sector = 999, tags = None \<rparr>,
               \<lparr> is_audio = False, num = 2, start = 1000, end_sector = 1999, tags = None \<rparr>]"
    by (simp add: open_mixed_cd)
  have n: "0 <s cdio_get_num_tracks mixed_cd" and f: "0 \<le>s cdio_get_first_track_num mixed_cd"
    by (simp_all add: mixed_cd_def word_sless_alt word_sle_eq)
  from open_tracks_numbered_and_layout_as_reported [OF r ok h n f] r ok h n f
    reported_layout_ascending_mixed_cd
  show ?thesis
    by (simp add: ts)
qed

lemma open_odd_drive:
  assumes "cdio_open odd_drives dev = Inr (zero_length_cd\<lparr> cdio_get_track_sec_count := (\<lambda>t. len),
                                                          cdio_get_track_lsn := (\<lambda>t. lsn) \<rparr>)"
  shows "gst_cdio_cdda_src_open odd_drives gst_cdio_cdda_src_init (Some dev) =
     Some \<lparr> open_ret = True,
            open_src = \<lparr> cdio = Some (zero_length_cd\<lparr> cdio_get_track_sec_count := (\<lambda>t. len),
                                                      cdio_get_track_lsn := (\<lambda>t. lsn) \<rparr>),
                         read_speed = - 1 \<rparr>,
            open_tracks =
              [\<lparr> is_audio = True, num = 1, start = lsn, end_sector = lsn + len - 1, tags = None \<rparr>,
               \<lparr> is_audio = True, num = 2, start = lsn, end_sector = lsn + len - 1, tags = None \<rparr>],
            open_events =
              [Log LOG (Trying_to_open_device dev),
               Log LOG (Discmode CDIO_DISC_MODE_CD_DA),
               Log LOG (Tracks_first_track 2 1),
               Log DEBUG (No_cdtext_for_track 1),
               Log DEBUG (No_cdtext_for_track 2)] \<rparr>"
proof -
  let ?cd = "zero_length_cd\<lparr> cdio_get_track_sec_count := (\<lambda>t. len), cdio_get_track_lsn := (\<lambda>t. lsn) \<rparr>"
  have a: "cdio gst_cdio_cdda_src_init = None"
    by (simp add: gst_cdio_cdda_src_init_def)
  have c: "cdio_get_discmode ?cd = CDIO_DISC_MODE_CD_DA \<or> cdio_get_discmode ?cd = CDIO_DISC_MODE_CD_MIXED"
    by (simp add: zero_length_cd_def)
  have d: "\<not> cdio_get_num_tracks ?cd \<le>s 0"
    by (simp add: zero_length_cd_def mixed_cd_def word_sle_eq)
  have e: "\<not> cdio_get_first_track_num ?cd <s 0"
    by (simp add: zero_length_cd_def mixed_cd_def word_sless_alt)
  have n: "[0..<nat (sint (cdio_get_num_tracks ?cd))] = [0, 1]"
    by (simp add: zero_length_cd_def mixed_cd_def numeral_2_eq_2)
  have v: "LIBCDIO_VERSION_NUM odd_drives = 76"
    by (simp add: odd_drives_def four_drives_def)
  show ?thesis
    unfolding open_enumerated_tracks [OF a assms c d e] n
    by (simp add: open_track_def gst_cdio_cdda_src_get_cdtext_def v open_set_speed_def
          notcdio_track_is_audio_track_def gst_cdio_cdda_src_init_def DEFAULT_READ_SPEED_def
          zero_length_cd_def mixed_cd_def)
qed

text \<open>
  C1, against the claim as stated. Three audio discs (mode CD-DA, two tracks, first track
  1) open with success, and \<open>open\<close> passes on the sectors that the library reports. With
  no sector in a track, both tracks start at 100 and end at 99. With both tracks reported
  on the sectors 0 to 999, the first track ends at 999 and the second starts at 0. With
  a track reported at sector -1, its start is 4294967295 and its end is 0.
\<close>

theorem open_tracks_layout_not_ascending:
  "cdio_get_discmode zero_length_cd = CDIO_DISC_MODE_CD_DA
   \<and> 0 <s cdio_get_num_tracks zero_length_cd \<and> 0 \<le>s cdio_get_first_track_num zero_length_cd
   \<and> gst_cdio_cdda_src_open odd_drives gst_cdio_cdda_src_init (Some ''/dev/sr4'') =
     Some \<lparr> open_ret = True,
            open_src = \<lparr> cdio = Some zero_length_cd, read_speed = - 1 \<rparr>,
            open_tracks =
              [\<lparr> is_audio = True, num = 1, start = 100, end_sector = 99, tags = None \<rparr>,
               \<lparr> is_audio = True, num = 2, start = 100, end_sector = 99, tags = None \<rparr>],
            open_events =
              [Log LOG (Trying_to_open_device ''/dev/sr4''),
               Log LOG (Discmode CDIO_DISC_MODE_CD_DA),
               Log LOG (Tracks_first_track 2 1),
               Log DEBUG (No_cdtext_for_track 1),
               Log DEBUG (No_cdtext_for_track 2)] \<rparr>
   \<and> \<not> uint (100 :: guint) \<le> uint (99 :: guint)
   \<and> gst_cdio_cdda_src_open odd_drives gst_cdio_cdda_src_init (Some ''/dev/sr5'') =
     Some \<lparr> open_ret = True,
            open_src = \<lparr> cdio = Some overlapping_cd, read_speed = - 1 \<rparr>,
            open_tracks =
              [\<lparr> is_audio = True, num = 1, start = 0, end_sector = 999, tags = None \<rparr>,
               \<lparr> is_audio = True, num = 2, start = 0, end_sector = 999, tags = None \<rparr>],
            open_events =
              [Log LOG (Trying_to_open_device ''/dev/sr5''),
               Log LOG (Discmode CDIO_DISC_MODE_CD_DA),
               Log LOG (Tracks_first_track 2 1),
               Log DEBUG (No_cdtext_for_track 1),
               Log DEBUG (No_cdtext_for_track 2)] \<rparr>
   \<and> \<not> uint (999 :: guint) < uint (0 :: guint)
   \<and> gst_cdio_cdda_src_open odd_drives gst_cdio_cdda_src_init (Some ''/dev/sr6'') =
     Some \<lparr> open_ret = True,
            open_src = \<lparr> cdio = Some negative_lsn_cd, read_speed = - 1 \<rparr>,
            open_tracks =
              [\<lparr> is_audio = True, num = 1, start = 4294967295, end_sector = 0, tags = None \<rparr>,
               \<lparr> is_audio = True, num = 2, start = 4294967295, end_sector = 0, tags = None \<rparr>],
            open_events =
              [Log LOG (Trying_to_open_device ''/dev/sr6''),
               Log LOG (Discmode CDIO_DISC_MODE_CD_DA),
               Log LOG (Tracks_first_track 2 1),
               Log DEBUG (No_cdtext_for_track 1),
               Log DEBUG (No_cdtext_for_track 2)] \<rparr>
   \<and> \<not> uint (4294967295 :: guint) \<le> uint (0 :: guint)"
proof -
  have z: "zero_length_cd = zero_length_cd\<lparr> cdio_get_track_sec_count := (\<lambda>t. 0),
                                              cdio_get_track_lsn := (\<lambda>t. 100) \<rparr>"
    by (simp add: zero_length_cd_def)
  have "cdio_open odd_drives ''/dev/sr4'' =
          Inr (zero_length_cd\<lparr> cdio_get_track_sec_count := (\<lambda>t. 0),
                               cdio_get_track_lsn := (\<lambda>t. 100) \<rparr>)"
    by (simp add: odd_drives_def z [symmetric])
  from open_odd_drive [OF this]
  have 1: "gst_cdio_cdda_src_open odd_drives gst_cdio_cdda_src_init (Some ''/dev/sr4'') =
     Some \<lparr> open_ret = True,
            open_src = \<lparr> cdio = Some zero_length_cd, read_speed = - 1 \<rparr>,
            open_tracks =
              [\<lparr> is_audio = True, num = 1, start = 100, end_sector = 99, tags = None \<rparr>,
               \<lparr> is_audio = True, num = 2, start = 100, end_sector = 99, tags = None \<rparr>],
            open_events =
              [Log LOG (Trying_to_open_device ''/dev/sr4''),
               Log LOG (Discmode CDIO_DISC_MODE_CD_DA),
               Log LOG (Tracks_first_track 2 1),
               Log DEBUG (No_cdtext_for_track 1),
               Log DEBUG (No_cdtext_for_track 2)] \<rparr>"
    by (simp add: z [symmetric])
  have "cdio_open odd_drives ''/dev/sr5'' =
          Inr (zero_length_cd\<lparr> cdio_get_track_sec_count := (\<lambda>t. 1000),
                               cdio_get_track_lsn := (\<lambda>t. 0) \<rparr>)"
    by (simp add: odd_drives_def overlapping_cd_def)
  from open_odd_drive [OF this]
  have 2: "gst_cdio_cdda_src_open odd_drives gst_cdio_cdda_src_init (Some ''/dev/sr5'') =
     Some \<lparr> open_ret = True,
            open_src = \<lparr> cdio = Some overlapping_cd, read_speed = - 1 \<rparr>,
            open_tracks =
              [\<lparr> is_audio = True, num = 1, start = 0, end_sector = 999, tags = None \<rparr>,
               \<lparr> is_audio = True, num = 2, start = 0, end_sector = 999, tags = None \<rparr>],
            open_events =
              [Log LOG (Trying_to_open_device ''/dev/sr5''),
               Log LOG (Discmode CDIO_DISC_MODE_CD_DA),
               Log LOG (Tracks_first_track 2 1),
               Log DEBUG (No_cdtext_for_track 1),
               Log DEBUG (No_cdtext_for_track 2)] \<rparr>"
    by (simp add: overlapping_cd_def)
  have "cdio_open odd_drives ''/dev/sr6'' =
          Inr (zero_length_cd\<lparr> cdio_get_track_sec_count := (\<lambda>t. 2),
                               cdio_get_track_lsn := (\<lambda>t. - 1) \<rparr>)"
    by (simp add: odd_drives_def negative_lsn_cd_def)
  from open_odd_drive [OF this]
  have 3: "gst_cdio_cdda_src_open odd_drives gst_cdio_cdda_src_init (Some ''/dev/sr6'') =
     Some \<lparr> open_ret = True,
            open_src = \<lparr> cdio = Some negative_lsn_cd, read_speed = - 1 \<rparr>,
            open_tracks =
              [\<lparr> is_audio = True, num = 1, start = 4294967295, end_sector = 0, tags = None \<rparr>,
               \<lparr> is_audio = True, num = 2, start = 4294967295, end_sector = 0, tags = None \<rparr>],
            open_events =
              [Log LOG (Trying_to_open_device ''/dev/sr6''),
               Log LOG (Discmode CDIO_DISC_MODE_CD_DA),
               Log LOG (Tracks_first_track 2 1),
               Log DEBUG (No_cdtext_for_track 1),
               Log DEBUG (No_cdtext_for_track 2)] \<rparr>"
    by (simp add: negative_lsn_cd_def)
  have "cdio_get_discmode zero_length_cd = CDIO_DISC_MODE_CD_DA"
    and "0 <s cdio_get_num_tracks zero_length_cd"
    and "0 \<le>s cdio_get_first_track_num zero_length_cd"
    by (simp_all add: zero_length_cd_def mixed_cd_def word_sless_alt word_sle_eq)
  with 1 2 3 show ?thesis
    by simp
qed

subsection \<open>Reading a sector\<close>

lemma read_sector_alloc_failed:
  "host_ret \<noteq> GST_FLOW_OK \<Longrightarrow>
   gst_cdio_cdda_src_read_sector lib host_ret src sector =
     (None, [Log DEBUG (Alloc_buffer_failed host_ret)])"
  by (simp add: gst_cdio_cdda_src_read_sector_def gst_pad_alloc_buffer_def)

lemma read_sector_read_failed:
  "read_ret (call_cdio_read_audio_sector lib (cdio src) sector) \<noteq> 0 \<Longrightarrow>
   gst_cdio_cdda_src_read_sector lib GST_FLOW_OK src sector =
     (None,
      [Log WARNING (Read_at_sector_failed sector),
       ELEMENT_ERROR READ ''Could not read from CD.''
         (Read_audio_sector_failed sector
            (read_errno (call_cdio_read_audio_sector lib (cdio src) sector))),
       Call_gst_buffer_unref])"
  by (simp add: gst_cdio_cdda_src_read_sector_def gst_pad_alloc_buffer_def Let_def)

lemma read_sector_read_ok:
  "read_ret (call_cdio_read_audio_sector lib (cdio src) sector) = 0 \<Longrightarrow>
   gst_cdio_cdda_src_read_sector lib GST_FLOW_OK src sector =
     (Some \<lparr> GST_BUFFER_SIZE = CDIO_CD_FRAMESIZE_RAW,
             GST_BUFFER_DATA = read_bytes (call_cdio_read_audio_sector lib (cdio src) sector) \<rparr>,
      [])"
  by (simp add: gst_cdio_cdda_src_read_sector_def gst_pad_alloc_buffer_def Let_def)

text \<open>
  C3, as the code has it. A call of \<open>read_sector\<close> has one of three outcomes. It returns a
  buffer of \<^verbatim>\<open>CDIO_CD_FRAMESIZE_RAW\<close> = 2352 bytes, and then the host's allocation and the
  library's read have both succeeded. Or the library's read has failed: no buffer is
  returned, the buffer is released, and a read error is posted that carries the sector
  and the \<^verbatim>\<open>errno\<close>. Or the host's allocation has failed: no buffer is returned, and
  the flow return is logged at debug level, with no read error.
\<close>

theorem read_sector_outcomes:
  "(case gst_cdio_cdda_src_read_sector lib host_ret src sector of
      (Some buf, ev) \<Rightarrow>
        host_ret = GST_FLOW_OK
        \<and> read_ret (call_cdio_read_audio_sector lib (cdio src) sector) = 0
        \<and> GST_BUFFER_SIZE buf = CDIO_CD_FRAMESIZE_RAW \<and> GST_BUFFER_SIZE buf = 2352
        \<and> ev = []
    | (None, ev) \<Rightarrow>
        (host_ret = GST_FLOW_OK
         \<and> read_ret (call_cdio_read_audio_sector lib (cdio src) sector) \<noteq> 0
         \<and> ev = [Log WARNING (Read_at_sector_failed sector),
                 ELEMENT_ERROR READ ''Could not read from CD.''
                   (Read_audio_sector_failed sector
                      (read_errno (call_cdio_read_audio_sector lib (cdio src) sector))),
                 Call_gst_buffer_unref])
        \<or> (host_ret \<noteq> GST_FLOW_OK
            \<and> ev = [Log DEBUG (Alloc_buffer_failed host_ret)]))"
proof (cases "host_ret = GST_FLOW_OK")
  case False
  then show ?thesis
    by (simp add: read_sector_alloc_failed)
next
  case True
  show ?thesis
  proof (cases "read_ret (call_cdio_read_audio_sector lib (cdio src) sector) = 0")
    case True
    with \<open>host_ret = GST_FLOW_OK\<close> show ?thesis
      by (simp add: read_sector_read_ok CDIO_CD_FRAMESIZE_RAW_def)
  next
    case False
    with \<open>host_ret = GST_FLOW_OK\<close> show ?thesis
      by (simp add: read_sector_read_failed)
  qed
qed

theorem read_sector_outcomes_witness:
  "gst_cdio_cdda_src_read_sector four_drives GST_FLOW_OK
     \<lparr> cdio = Some mixed_cd, read_speed = - 1 \<rparr> 500 =
     (Some \<lparr> GST_BUFFER_SIZE = 2352, GST_BUFFER_DATA = [] \<rparr>, [])
   \<and> gst_cdio_cdda_src_read_sector four_drives GST_FLOW_OK
       \<lparr> cdio = Some scratched_cd, read_speed = - 1 \<rparr> 500 =
       (None,
        [Log WARNING (Read_at_sector_failed 500),
         ELEMENT_ERROR READ ''Could not read from CD.'' (Read_audio_sector_failed 500 5),
         Call_gst_buffer_unref])
   \<and> gst_cdio_cdda_src_read_sector four_drives (GST_FLOW_other (- 2))
       \<lparr> cdio = Some mixed_cd, read_speed = - 1 \<rparr> 500 =
       (None, [Log DEBUG (Alloc_buffer_failed (GST_FLOW_other (- 2)))])"
  using
    read_sector_outcomes [where lib = four_drives and host_ret = GST_FLOW_OK
      and src = "\<lparr> cdio = Some mixed_cd, read_speed = - 1 \<rparr>" and sector = 500]
    read_sector_outcomes [where lib = four_drives and host_ret = GST_FLOW_OK
      and src = "\<lparr> cdio = Some scratched_cd, read_speed = - 1 \<rparr>" and sector = 500]
    read_sector_outcomes [where lib = four_drives and host_ret = "GST_FLOW_other (- 2)"
      and src = "\<lparr> cdio = Some mixed_cd, read_speed = - 1 \<rparr>" and sector = 500]
  by (simp add: call_cdio_read_audio_sector_def mixed_cd_def scratched_cd_def
        read_sector_read_ok read_sector_read_failed read_sector_alloc_failed
        CDIO_CD_FRAMESIZE_RAW_def)

text \<open>
  C3, against the claim as stated. The element has opened the disc of the scenario, and
  sector 500 lies in its first track. The host's allocation fails (flow return -2): the
  call returns no buffer, and the only event is the debug line, so no read error with the
  sector and a cause has been posted.
\<close>

theorem read_sector_alloc_failure_without_read_error:
  "gst_cdio_cdda_src_open four_drives gst_cdio_cdda_src_init (Some ''/dev/cdrom'') =
     Some \<lparr> open_ret = True,
            open_src = \<lparr> cdio = Some mixed_cd, read_speed = - 1 \<rparr>,
            open_tracks =
              [\<lparr> is_audio = True, num = 1, start = 0, end_sector = 999, tags = None \<rparr>,
               \<lparr> is_audio = False, num = 2, start = 1000, end_sector = 1999, tags = None \<rparr>],
            open_events =
              [Log LOG (Trying_to_open_device ''/dev/cdrom''),
               Log LOG (Discmode CDIO_DISC_MODE_CD_MIXED),
               Log LOG (Tracks_first_track 2 1),
               Log DEBUG (No_cdtext_for_track 1),
               Log DEBUG (No_cdtext_for_track 2)] \<rparr>
   \<and> gst_cdio_cdda_src_read_sector four_drives (GST_FLOW_other (- 2))
       \<lparr> cdio = Some mixed_cd, read_speed = - 1 \<rparr> 500 =
       (None, [Log DEBUG (Alloc_buffer_failed (GST_FLOW_other (- 2)))])
   \<and> element_errors [Log DEBUG (Alloc_buffer_failed (GST_FLOW_other (- 2)))] = []"
  by (simp add: open_mixed_cd read_sector_alloc_failed)

subsection \<open>Reading after close\<close>

lemma close_releases_handle:
  "gst_cdio_cdda_src_close src = Some (src', ev) \<Longrightarrow>
   src' = src\<lparr> cdio := None \<rparr> \<and> ev = [Call_cdio_destroy] \<and> cdio src \<noteq> None"
  by (auto simp add: gst_cdio_cdda_src_close_def split: option.splits)

text \<open>
  C7, as the code has it. After \<open>close\<close> the element holds no handle. \<open>read_sector\<close> does
  not look at that: it hands the \<^verbatim>\<open>NULL\<close> handle to the library's read, and what it
  returns is what the library makes of a \<^verbatim>\<open>NULL\<close> handle. Where the library answers with
  an error code, the read is rejected with a read error; where it answers 0, a buffer
  of 2352 bytes is returned.
\<close>

theorem read_sector_after_close:
  assumes "gst_cdio_cdda_src_close src = Some (src', ev)"
  shows "cdio src' = None
         \<and> gst_cdio_cdda_src_read_sector lib host_ret src' sector =
             (if host_ret \<noteq> GST_FLOW_OK then (None, [Log DEBUG (Alloc_buffer_failed host_ret)])
              else if read_ret (read_audio_sector_NULL lib sector) \<noteq> 0 then
                (None,
                 [Log WARNING (Read_at_sector_failed sector),
                  ELEMENT_ERROR READ ''Could not read from CD.''
                    (Read_audio_sector_failed sector
                       (read_errno (read_audio_sector_NULL lib sector))),
                  Call_gst_buffer_unref])
              else
                (Some \<lparr> GST_BUFFER_SIZE = 2352,
                        GST_BUFFER_DATA = read_bytes (read_audio_sector_NULL lib sector) \<rparr>,
                 []))"
proof -
  from assms have closed: "cdio src' = None"
    by (auto dest: close_releases_handle)
  then have "call_cdio_read_audio_sector lib (cdio src') sector = read_audio_sector_NULL lib sector"
    by (simp add: call_cdio_read_audio_sector_def)
  with closed show ?thesis
    by (simp add: gst_cdio_cdda_src_read_sector_def gst_pad_alloc_buffer_def Let_def
          CDIO_CD_FRAMESIZE_RAW_def)
qed

theorem read_sector_after_close_witness:
  "gst_cdio_cdda_src_close \<lparr> cdio = Some mixed_cd, read_speed = - 1 \<rparr> =
     Some (\<lparr> cdio = None, read_speed = - 1 \<rparr>, [Call_cdio_destroy])
   \<and> gst_cdio_cdda_src_read_sector four_drives GST_FLOW_OK \<lparr> cdio = None, read_speed = - 1 \<rparr> 500 =
       (None,
        [Log WARNING (Read_at_sector_failed 500),
         ELEMENT_ERROR READ ''Could not read from CD.'' (Read_audio_sector_failed 500 0),
         Call_gst_buffer_unref])"
proof -
  have c: "gst_cdio_cdda_src_close \<lparr> cdio = Some mixed_cd, read_speed = - 1 \<rparr> =
             Some (\<lparr> cdio = None, read_speed = - 1 \<rparr>, [Call_cdio_destroy])"
    by (simp add: gst_cdio_cdda_src_close_def)
  from read_sector_after_close [OF c, of four_drives GST_FLOW_OK 500] c
  show ?thesis
    by (simp add: four_drives_def)
qed

text \<open>
  C7, against the claim as stated. The element closes the disc of the scenario and then
  reads sector 500. With a library that answers 0 when its read is given a \<^verbatim>\<open>NULL\<close>
  handle, the call returns a buffer, and no event tells of an error.
\<close>

theorem read_sector_after_close_returns_buffer:
  "gst_cdio_cdda_src_close \<lparr> cdio = Some mixed_cd, read_speed = - 1 \<rparr> =
     Some (\<lparr> cdio = None, read_speed = - 1 \<rparr>, [Call_cdio_destroy])
   \<and> gst_cdio_cdda_src_read_sector lenient_library GST_FLOW_OK
       \<lparr> cdio = None, read_speed = - 1 \<rparr> 500 =
       (Some \<lparr> GST_BUFFER_SIZE = 2352, GST_BUFFER_DATA = [] \<rparr>, [])"
  by (simp add: gst_cdio_cdda_src_close_def gst_cdio_cdda_src_read_sector_def
        gst_pad_alloc_buffer_def call_cdio_read_audio_sector_def lenient_library_def
        four_drives_def CDIO_CD_FRAMESIZE_RAW_def Let_def)

subsection \<open>The read speed in \<open>open\<close>\<close>

lemma speed_calls_append: "speed_calls (xs @ ys) = speed_calls xs @ speed_calls ys"
  by (induction xs rule: speed_calls.induct) simp_all

lemma warnings_append: "warnings (xs @ ys) = warnings xs @ warnings ys"
  by (induction xs rule: warnings.induct) simp_all

lemma open_track_quiet:
  "speed_calls (snd (open_track lib p_cdio t)) = []"
  "warnings (snd (open_track lib p_cdio t)) = []"
  by (simp_all add: open_track_def gst_cdio_cdda_src_get_cdtext_def Let_def
        split: prod.splits option.splits)

lemma open_tracks_quiet:
  "speed_calls (concat (map (\<lambda>k. snd (open_track lib p_cdio (f k))) ks)) = []"
  "warnings (concat (map (\<lambda>k. snd (open_track lib p_cdio (f k))) ks)) = []"
  by (induction ks) (simp_all add: speed_calls_append warnings_append open_track_quiet)

lemma open_set_speed_events:
  "open_set_speed lib p_cdio src =
     (if read_speed src \<noteq> - 1 then
        (if 76 \<le> LIBCDIO_VERSION_NUM lib then [Call_cdio_set_speed (read_speed src)]
         else [Log WARNING (Set_speed_not_supported (LIBCDIO_VERSION_NUM lib))])
      else [])"
  by (simp add: open_set_speed_def Let_def)

lemma open_track_with_set_speed:
  "open_track (with_set_speed g lib) (p_cdio\<lparr> cdio_set_speed := g \<rparr>) t = open_track lib p_cdio t"
  by (simp add: open_track_def gst_cdio_cdda_src_get_cdtext_def with_set_speed_def
        notcdio_track_is_audio_track_def)

lemma cdio_open_with_set_speed:
  "cdio_open lib dev = Inl e \<Longrightarrow> cdio_open (with_set_speed g lib) dev = Inl e"
  "cdio_open lib dev = Inr p_cdio \<Longrightarrow>
     cdio_open (with_set_speed g lib) dev = Inr (p_cdio\<lparr> cdio_set_speed := g \<rparr>)"
  by (simp_all add: with_set_speed_def)

lemma LIBCDIO_VERSION_NUM_with_set_speed:
  "LIBCDIO_VERSION_NUM (with_set_speed g lib) = LIBCDIO_VERSION_NUM lib"
  by (simp add: with_set_speed_def)

text \<open>
  C6, as the code has it. Take an \<open>open\<close> that has opened the device. It succeeds exactly
  when the mode check passes, whatever happens to the speed. Only when it goes on to
  enumerate tracks (\<open>num_tracks > 0\<close> and \<open>first_track \<ge> 0\<close>) and the read speed is not
  -1 does it act on the speed: built against libcdio 76 or later it calls
  \<^verbatim>\<open>cdio_set_speed\<close> once, with the read speed, and logs no warning; built against an
  older libcdio it makes no call and logs one warning. In every other case (speed -1,
  failed mode check, no tracks) there is neither a call nor a warning. What
  \<^verbatim>\<open>cdio_set_speed\<close> answers changes nothing: over drives that answer differently,
  \<open>open\<close> returns the same value, adds the same tracks and leaves the same events.
\<close>

theorem open_read_speed_step:
  assumes "gst_cdio_cdda_src_open lib src device = Some r"
    and "cdio (open_src r) = Some p_cdio"
  shows "open_ret r = (cdio_get_discmode p_cdio = CDIO_DISC_MODE_CD_DA
                        \<or> cdio_get_discmode p_cdio = CDIO_DISC_MODE_CD_MIXED)
         \<and> speed_calls (open_events r) =
             (if open_ret r \<and> \<not> cdio_get_num_tracks p_cdio \<le>s 0
                 \<and> \<not> cdio_get_first_track_num p_cdio <s 0
                 \<and> read_speed src \<noteq> - 1 \<and> 76 \<le> LIBCDIO_VERSION_NUM lib
              then [read_speed src] else [])
         \<and> warnings (open_events r) =
             (if open_ret r \<and> \<not> cdio_get_num_tracks p_cdio \<le>s 0
                 \<and> \<not> cdio_get_first_track_num p_cdio <s 0
                 \<and> read_speed src \<noteq> - 1 \<and> LIBCDIO_VERSION_NUM lib < 76
              then [Set_speed_not_supported (LIBCDIO_VERSION_NUM lib)] else [])
         \<and> (\<exists>r'. gst_cdio_cdda_src_open (with_set_speed g lib) src device = Some r'
                  \<and> open_ret r' = open_ret r \<and> open_tracks r' = open_tracks r
                  \<and> open_events r' = open_events r)"
proof -
  let ?audio = "cdio_get_discmode p_cdio = CDIO_DISC_MODE_CD_DA
                \<or> cdio_get_discmode p_cdio = CDIO_DISC_MODE_CD_MIXED"
  let ?enum = "\<not> cdio_get_num_tracks p_cdio \<le>s 0 \<and> \<not> cdio_get_first_track_num p_cdio <s 0"
  let ?other = "\<exists>r'. gst_cdio_cdda_src_open (with_set_speed g lib) src device = Some r'
                  \<and> open_ret r' = open_ret r \<and> open_tracks r' = open_tracks r
                  \<and> open_events r' = open_events r"
  have paths: "open_ret r = ?audio \<and> ?other
        \<and> speed_calls (open_events r) =
            (if open_ret r \<and> ?enum then speed_calls (open_set_speed lib p_cdio src) else [])
        \<and> warnings (open_events r) =
            (if open_ret r \<and> ?enum then warnings (open_set_speed lib p_cdio src) else [])"
    using assms(1)
  proof (cases rule: open_Some_cases)
    case (unavailable dev e)
    with assms show ?thesis
      by (auto simp add: open_device_unavailable)
  next
    case (not_audio dev q)
    note other = cdio_open_with_set_speed(2) [OF not_audio(3), of g]
    from assms(1) have r: "r = the (gst_cdio_cdda_src_open lib src device)"
      by simp
    with assms(2) have q: "q = p_cdio"
      by (simp add: not_audio(1) open_not_audio [OF not_audio(2-5)])
    have "gst_cdio_cdda_src_open (with_set_speed g lib) src device =
            Some (r\<lparr> open_src := src\<lparr> cdio := Some (q\<lparr> cdio_set_speed := g \<rparr>) \<rparr> \<rparr>)"
      unfolding r not_audio(1)
      using not_audio(4,5)
      by (simp add: open_not_audio [OF not_audio(2) other] open_not_audio [OF not_audio(2-5)])
    then have ?other by simp
    moreover have "\<not> open_ret r" and "\<not> ?audio"
      using not_audio(4,5)
      by (simp_all add: r not_audio(1) open_not_audio [OF not_audio(2-5)] q [symmetric])
    moreover have "speed_calls (open_events r) = []" and "warnings (open_events r) = []"
      by (simp_all add: r not_audio(1) open_not_audio [OF not_audio(2-5)])
    ultimately show ?thesis by simp
  next
    case (no_tracks dev q)
    note other = cdio_open_with_set_speed(2) [OF no_tracks(3), of g]
    from assms(1) have r: "r = the (gst_cdio_cdda_src_open lib src device)"
      by simp
    with assms(2) have q: "q = p_cdio"
      by (simp add: no_tracks(1) open_no_tracks [OF no_tracks(2-5)])
    have "gst_cdio_cdda_src_open (with_set_speed g lib) src device =
            Some (r\<lparr> open_src := src\<lparr> cdio := Some (q\<lparr> cdio_set_speed := g \<rparr>) \<rparr> \<rparr>)"
      unfolding r no_tracks(1)
      using no_tracks(4,5)
      by (simp add: open_no_tracks [OF no_tracks(2) other] open_no_tracks [OF no_tracks(2-5)])
    then have ?other by simp
    moreover have "open_ret r" and "?audio" and "\<not> ?enum"
      using no_tracks(4,5)
      by (simp_all add: r no_tracks(1) open_no_tracks [OF no_tracks(2-5)] q [symmetric])
    moreover have "speed_calls (open_events r) = []" and "warnings (open_events r) = []"
      by (simp_all add: r no_tracks(1) open_no_tracks [OF no_tracks(2-5)])
    ultimately show ?thesis by auto
  next
    case (enumerates dev q)
    note other = cdio_open_with_set_speed(2) [OF enumerates(3), of g]
    from assms(1) have r: "r = the (gst_cdio_cdda_src_open lib src device)"
      by simp
    with assms(2) have q: "q = p_cdio"
      by (simp add: enumerates(1) open_enumerated_tracks [OF enumerates(2-6)])
    have "gst_cdio_cdda_src_open (with_set_speed g lib) src device =
            Some (r\<lparr> open_src := src\<lparr> cdio := Some (q\<lparr> cdio_set_speed := g \<rparr>) \<rparr> \<rparr>)"
      unfolding r enumerates(1)
      using enumerates(4,5,6)
      by (simp add: open_enumerated_tracks [OF enumerates(2) other]
            open_enumerated_tracks [OF enumerates(2-6)] open_track_with_set_speed
            LIBCDIO_VERSION_NUM_with_set_speed open_set_speed_events)
    then have ?other by simp
    moreover have "open_ret r" and "?audio" and "?enum"
      using enumerates(4,5,6)
      by (simp_all add: r enumerates(1) open_enumerated_tracks [OF enumerates(2-6)] q [symmetric])
    moreover have "speed_calls (open_events r) = speed_calls (open_set_speed lib p_cdio src)"
      and "warnings (open_events r) = warnings (open_set_speed lib p_cdio src)"
      by (simp_all add: r enumerates(1) open_enumerated_tracks [OF enumerates(2-6)]
            speed_calls_append warnings_append open_tracks_quiet open_set_speed_events)
    ultimately show ?thesis by simp
  qed
  have calls: "speed_calls (open_set_speed lib p_cdio src) =
                 (if read_speed src \<noteq> - 1 \<and> 76 \<le> LIBCDIO_VERSION_NUM lib
                  then [read_speed src] else [])"
    and warns: "warnings (open_set_speed lib p_cdio src) =
                  (if read_speed src \<noteq> - 1 \<and> LIBCDIO_VERSION_NUM lib < 76
                   then [Set_speed_not_supported (LIBCDIO_VERSION_NUM lib)] else [])"
    by (simp_all add: open_set_speed_events)
  show ?thesis
  proof (intro conjI)
    show "open_ret r = ?audio"
      using paths by (rule conjunct1)
    show "speed_calls (open_events r) =
            (if open_ret r \<and> \<not> cdio_get_num_tracks p_cdio \<le>s 0
                \<and> \<not> cdio_get_first_track_num p_cdio <s 0
                \<and> read_speed src \<noteq> - 1 \<and> 76 \<le> LIBCDIO_VERSION_NUM lib
             then [read_speed src] else [])"
      unfolding paths [THEN conjunct2, THEN conjunct2, THEN conjunct1] calls by simp
    show "warnings (open_events r) =
            (if open_ret r \<and> \<not> cdio_get_num_tracks p_cdio \<le>s 0
                \<and> \<not> cdio_get_first_track_num p_cdio <s 0
                \<and> read_speed src \<noteq> - 1 \<and> LIBCDIO_VERSION_NUM lib < 76
             then [Set_speed_not_supported (LIBCDIO_VERSION_NUM lib)] else [])"
      unfolding paths [THEN conjunct2, THEN conjunct2, THEN conjunct2] warns by simp
    show ?other
      using paths by (rule conjunct2 [THEN conjunct1])
  qed
qed

lemma open_fixed_speed_cd:
  "gst_cdio_cdda_src_open four_drives \<lparr> cdio = None, read_speed = 8 \<rparr> (Some ''/dev/sr3'') =
     Some \<lparr> open_ret = True,
            open_src = \<lparr> cdio = Some fixed_speed_cd, read_speed = 8 \<rparr>,
            open_tracks =
              [\<lparr> is_audio = True, num = 1, start = 0, end_sector = 999, tags = None \<rparr>,
               \<lparr> is_audio = False, num = 2, start = 1000, end_sector = 1999, tags = None \<rparr>],
            open_events =
              [Log LOG (Trying_to_open_device ''/dev/sr3''),
               Log LOG (Discmode CDIO_DISC_MODE_CD_MIXED),
               Call_cdio_set_speed 8,
               Log LOG (Tracks_first_track 2 1),
               Log DEBUG (No_cdtext_for_track 1),
               Log DEBUG (No_cdtext_for_track 2)] \<rparr>"
proof -
  have a: "cdio \<lparr> cdio = None, read_speed = 8 \<rparr> = None"
    by simp
  have b: "cdio_open four_drives ''/dev/sr3'' = Inr fixed_speed_cd"
    by (simp add: four_drives_def)
  have c: "cdio_get_discmode fixed_speed_cd = CDIO_DISC_MODE_CD_DA
           \<or> cdio_get_discmode fixed_speed_cd = CDIO_DISC_MODE_CD_MIXED"
    by (simp add: fixed_speed_cd_def mixed_cd_def)
  have d: "\<not> cdio_get_num_tracks fixed_speed_cd \<le>s 0"
    by (simp add: fixed_speed_cd_def mixed_cd_def word_sle_eq)
  have e: "\<not> cdio_get_first_track_num fixed_speed_cd <s 0"
    by (simp add: fixed_speed_cd_def mixed_cd_def word_sless_alt)
  have n: "[0..<nat (sint (cdio_get_num_tracks fixed_speed_cd))] = [0, 1]"
    by (simp add: fixed_speed_cd_def mixed_cd_def numeral_2_eq_2)
  have v: "LIBCDIO_VERSION_NUM four_drives = 76"
    by (simp add: four_drives_def)
  show ?thesis
    unfolding open_enumerated_tracks [OF a b c d e] n
    by (simp add: open_track_def gst_cdio_cdda_src_get_cdtext_def v open_set_speed_def
          notcdio_track_is_audio_track_def fixed_speed_cd_def mixed_cd_def)
qed

theorem open_read_speed_step_witness:
  "\<exists>r. gst_cdio_cdda_src_open four_drives \<lparr> cdio = None, read_speed = 8 \<rparr> (Some ''/dev/sr3'') = Some r
       \<and> cdio (open_src r) = Some fixed_speed_cd
       \<and> open_ret r
       \<and> speed_calls (open_events r) = [8]
       \<and> warnings (open_events r) = []
       \<and> (\<exists>r'. gst_cdio_cdda_src_open (with_set_speed (\<lambda>v. 0) four_drives)
                  \<lparr> cdio = None, read_speed = 8 \<rparr> (Some ''/dev/sr3'') = Some r'
                \<and> open_ret r' = open_ret r \<and> open_tracks r' = open_tracks r
                \<and> open_events r' = open_events r)"
proof -
  obtain r where r: "gst_cdio_cdda_src_open four_drives \<lparr> cdio = None, read_speed = 8 \<rparr>
                       (Some ''/dev/sr3'') = Some r"
    and h: "cdio (open_src r) = Some fixed_speed_cd"
    by (simp add: open_fixed_speed_cd)
  have m: "cdio_get_discmode fixed_speed_cd = CDIO_DISC_MODE_CD_MIXED"
    and n: "\<not> cdio_get_num_tracks fixed_speed_cd \<le>s 0"
    and f: "\<not> cdio_get_first_track_num fixed_speed_cd <s 0"
    and v: "LIBCDIO_VERSION_NUM four_drives = 76"
    by (simp_all add: fixed_speed_cd_def mixed_cd_def four_drives_def word_sle_eq word_sless_alt)
  from open_read_speed_step [OF r h, of "\<lambda>v. 0"] r h
  show ?thesis
    by (auto simp add: m n f v)
qed

text \<open>
  C6, against the claim as stated. With the read speed set to 8, opening the drive with
  the audio disc that has no tracks succeeds, and its events show no call of
  \<^verbatim>\<open>cdio_set_speed\<close>: \<open>open\<close> has returned before the speed step. And opening the
  drive that refuses every speed (\<^verbatim>\<open>cdio_set_speed\<close> answers -1) succeeds with the one
  call among the events and no log line about the refusal.
\<close>

theorem open_read_speed_not_applied_or_not_logged:
  "gst_cdio_cdda_src_open four_drives \<lparr> cdio = None, read_speed = 8 \<rparr> (Some ''/dev/sr2'') =
     Some \<lparr> open_ret = True,
            open_src = \<lparr> cdio = Some empty_cd, read_speed = 8 \<rparr>,
            open_tracks = [],
            open_events =
              [Log LOG (Trying_to_open_device ''/dev/sr2''),
               Log LOG (Discmode CDIO_DISC_MODE_CD_DA)] \<rparr>
   \<and> cdio_set_speed fixed_speed_cd 8 = - 1
   \<and> gst_cdio_cdda_src_open four_drives \<lparr> cdio = None, read_speed = 8 \<rparr> (Some ''/dev/sr3'') =
     Some \<lparr> open_ret = True,
            open_src = \<lparr> cdio = Some fixed_speed_cd, read_speed = 8 \<rparr>,
            open_tracks =
              [\<lparr> is_audio = True, num = 1, start = 0, end_sector = 999, tags = None \<rparr>,
               \<lparr> is_audio = False, num = 2, start = 1000, end_sector = 1999, tags = None \<rparr>],
            open_events =
              [Log LOG (Trying_to_open_device ''/dev/sr3''),
               Log LOG (Discmode CDIO_DISC_MODE_CD_MIXED),
               Call_cdio_set_speed 8,
               Log LOG (Tracks_first_track 2 1),
               Log DEBUG (No_cdtext_for_track 1),
               Log DEBUG (No_cdtext_for_track 2)] \<rparr>"
proof -
  have "gst_cdio_cdda_src_open four_drives \<lparr> cdio = None, read_speed = 8 \<rparr> (Some ''/dev/sr2'') =
     Some \<lparr> open_ret = True,
            open_src = \<lparr> cdio = Some empty_cd, read_speed = 8 \<rparr>,
            open_tracks = [],
            open_events =
              [Log LOG (Trying_to_open_device ''/dev/sr2''),
               Log LOG (Discmode CDIO_DISC_MODE_CD_DA)] \<rparr>"
    by (simp add: gst_cdio_cdda_src_open_def four_drives_def empty_cd_def mixed_cd_def Let_def)
  moreover have "cdio_set_speed fixed_speed_cd 8 = - 1"
    by (simp add: fixed_speed_cd_def)
  ultimately show ?thesis
    using open_fixed_speed_cd by simp
qed

end
